theory Spec2Isabelle
  imports Main "HOL-Library.AList"
begin

section \<open>Configuration values and the deep merge\<close>

text \<open>
  A decoded YAML document is held by the loader as Go's \<^verbatim>\<open>interface{}\<close>: null, a
  boolean, a number, a string, a slice of values or a \<^verbatim>\<open>map[string]interface{}\<close>.
  A Go map is written as an association list whose keys are distinct; \<open>map_of\<close> reads it
  and \<open>AList.update\<close> is the assignment \<^verbatim>\<open>out[k] = v\<close>. Numbers are opaque to the
  merge and are kept as integers.
\<close>

datatype val =
    VNull
  | VBool bool
  | VNum int
  | VStr string
  | VSeq "val list"
  | VMap "(string \<times> val) list"

type_synonym gomap = "(string \<times> val) list"

text \<open>
  \<^verbatim>\<open>MergeMaps(a, b)\<close>: \<^verbatim>\<open>out\<close> starts as a copy of \<^verbatim>\<open>a\<close>, and the loop
  \<^verbatim>\<open>for k, v := range b\<close> assigns \<^verbatim>\<open>out[k]\<close> once per entry of \<^verbatim>\<open>b\<close>. The first
  argument of the recursion is \<^verbatim>\<open>out\<close>, the second the entries of \<^verbatim>\<open>b\<close> still to visit.
  When \<^verbatim>\<open>v\<close> is a map and \<^verbatim>\<open>out[k]\<close> exists and is a map the two are merged; in every
  other case \<^verbatim>\<open>out[k] = v\<close>.
\<close>

fun MergeMaps :: "gomap \<Rightarrow> gomap \<Rightarrow> gomap" where
  "MergeMaps out [] = out"
| "MergeMaps out ((k, v) # b) =
     MergeMaps
       (AList.update k
          (case v of
             VMap vm \<Rightarrow>
               (case map_of out k of
                  Some (VMap bv) \<Rightarrow> VMap (MergeMaps bv vm)
                | _ \<Rightarrow> v)
           | _ \<Rightarrow> v)
          out)
       b"


text \<open>
  The maps the loader handles are Go maps, so their keys are distinct at every level.
  \<open>distinct_keys\<close> says so of a value and of the maps nested in it through maps.
\<close>

fun distinct_keys :: "val \<Rightarrow> bool" where
  "distinct_keys (VMap m) = (distinct (map fst m) \<and> (\<forall>kv \<in> set m. distinct_keys (snd kv)))"
| "distinct_keys v = True"

section \<open>The string functions of the Go library that the loader calls\<close>

type_synonym bytes = string

text \<open>\<^verbatim>\<open>strings.HasPrefix(s, prefix)\<close> and \<^verbatim>\<open>strings.TrimPrefix(s, prefix)\<close>.\<close>

definition HasPrefix :: "string \<Rightarrow> string \<Rightarrow> bool" where
  "HasPrefix s prefix = (take (length prefix) s = prefix)"

definition TrimPrefix :: "string \<Rightarrow> string \<Rightarrow> string" where
  "TrimPrefix s prefix = (if HasPrefix s prefix then drop (length prefix) s else s)"

text \<open>
  \<^verbatim>\<open>strings.SplitN(s, sep, 2)\<close> for a separator of one byte: the string itself when
  the separator does not occur in it, else what stands before its first occurrence and
  what stands after it.
\<close>

definition SplitN2 :: "string \<Rightarrow> char \<Rightarrow> string list" where
  "SplitN2 s sep =
     (if sep \<in> set s
      then [takeWhile (\<lambda>c. c \<noteq> sep) s, tl (dropWhile (\<lambda>c. c \<noteq> sep) s)]
      else [s])"

text \<open>
  \<^verbatim>\<open>filepath.Ext(path)\<close> walks back from the end of the path, stops at a separator and
  returns the suffix that starts at the first dot it meets. \<open>Ext_loop\<close> is that loop: its
  first argument is what is left of the path, last byte first, its second the suffix
  already passed.
\<close>

fun Ext_loop :: "string \<Rightarrow> string \<Rightarrow> string" where
  "Ext_loop [] suffix = []"
| "Ext_loop (c # cs) suffix =
     (if c = CHR ''/'' then []
      else if c = CHR ''.'' then c # suffix
      else Ext_loop cs (c # suffix))"

definition Ext :: "string \<Rightarrow> string" where
  "Ext path = Ext_loop (rev path) []"

text \<open>
  \<^verbatim>\<open>strings.IndexAny(s, chars)\<close>: the index of the first byte of \<^verbatim>\<open>s\<close> that occurs in
  \<^verbatim>\<open>chars\<close>, or \<open>-1\<close>. The loader calls it with the ASCII set \<^verbatim>\<open>"_."\<close> only.
\<close>

fun IndexAny :: "string \<Rightarrow> string \<Rightarrow> int" where
  "IndexAny [] chars = - 1"
| "IndexAny (c # s) chars =
     (if c \<in> set chars then 0
      else (let i = IndexAny s chars in if i < 0 then - 1 else i + 1))"

section \<open>Files, charts and errors\<close>

text \<open>
  \<^verbatim>\<open>BufferedFile\<close> is the loader's own struct. \<^verbatim>\<open>chart.File\<close> and \<^verbatim>\<open>chart.Chart\<close>
  belong to the chart package: a file is a name and its data, and a chart has the fields
  that \<^verbatim>\<open>LoadFiles\<close> assigns, with its dependencies last. The types of the metadata and of
  the lock record are parameters.
\<close>

record BufferedFile =
  Name :: string
  Data :: bytes

datatype File = File (file_name: string) (file_data: bytes)

datatype ('m, 'l) Chart = Chart
  (Raw: "File list")
  (Metadata: "'m option")
  (Lock: "'l option")
  (Values: "gomap option")
  (Schema: bytes)
  (Templates: "File list")
  (Files: "File list")
  (dependencies: "('m, 'l) Chart list")

text \<open>\<^verbatim>\<open>new(chart.Chart)\<close>: every field is nil.\<close>

definition new_Chart :: "('m, 'l) Chart" where
  "new_Chart = Chart [] None None None [] [] [] []"

text \<open>Assignments to one field of a chart.\<close>

definition set_Raw :: "File list \<Rightarrow> ('m, 'l) Chart \<Rightarrow> ('m, 'l) Chart" where
  "set_Raw x c =
     Chart x (Metadata c) (Lock c) (Values c) (Schema c) (Templates c) (Files c) (dependencies c)"

definition set_Metadata :: "'m option \<Rightarrow> ('m, 'l) Chart \<Rightarrow> ('m, 'l) Chart" where
  "set_Metadata x c =
     Chart (Raw c) x (Lock c) (Values c) (Schema c) (Templates c) (Files c) (dependencies c)"

definition set_Lock :: "'l option \<Rightarrow> ('m, 'l) Chart \<Rightarrow> ('m, 'l) Chart" where
  "set_Lock x c =
     Chart (Raw c) (Metadata c) x (Values c) (Schema c) (Templates c) (Files c) (dependencies c)"

definition set_Values :: "gomap option \<Rightarrow> ('m, 'l) Chart \<Rightarrow> ('m, 'l) Chart" where
  "set_Values x c =
     Chart (Raw c) (Metadata c) (Lock c) x (Schema c) (Templates c) (Files c) (dependencies c)"

definition set_Schema :: "bytes \<Rightarrow> ('m, 'l) Chart \<Rightarrow> ('m, 'l) Chart" where
  "set_Schema x c =
     Chart (Raw c) (Metadata c) (Lock c) (Values c) x (Templates c) (Files c) (dependencies c)"

definition set_Templates :: "File list \<Rightarrow> ('m, 'l) Chart \<Rightarrow> ('m, 'l) Chart" where
  "set_Templates x c =
     Chart (Raw c) (Metadata c) (Lock c) (Values c) (Schema c) x (Files c) (dependencies c)"

definition set_Files :: "File list \<Rightarrow> ('m, 'l) Chart \<Rightarrow> ('m, 'l) Chart" where
  "set_Files x c =
     Chart (Raw c) (Metadata c) (Lock c) (Values c) (Schema c) (Templates c) x (dependencies c)"

text \<open>
  Modelled from the spec: \<^verbatim>\<open>AddDependency\<close> of the chart package, which is not among the
  sources; the spec calls it the append-only add-dependency operation.
\<close>

definition AddDependency :: "('m, 'l) Chart \<Rightarrow> ('m, 'l) Chart \<Rightarrow> ('m, 'l) Chart" where
  "AddDependency c sc =
     Chart (Raw c) (Metadata c) (Lock c) (Values c) (Schema c) (Templates c) (Files c)
       (dependencies c @ [sc])"

text \<open>
  The errors \<^verbatim>\<open>LoadFiles\<close> and \<^verbatim>\<open>LoadValues\<close> return, one constructor per message;
  \<open>'e\<close> is the type of the errors of the collaborators (the YAML library, the validator,
  the archive loader). \<open>Foreign\<close> is such an error returned as it is. The last
  constructor is the panic of \<^verbatim>\<open>files[0]\<close> on an empty slice.
\<close>

datatype 'e error =
    Foreign 'e
  | CannotLoadChartYaml 'e
  | CannotLoadChartLock 'e
  | CannotLoadValuesYaml "'e error"
  | ChartYamlMissing
  | ErrorReadingYamlDocument 'e
  | CannotUnmarshalYamlDocument 'e
  | SubchartTarMismatch string string string
  | ErrorUnpackingSubchart string string "'e error"
  | PanicIndexOutOfRange

section \<open>The collaborators of the loader\<close>

text \<open>
  \<^verbatim>\<open>LoadFiles\<close> calls code that is not the loader's: the YAML library, the chart
  package and the archive loader. They are the fields of \<open>env\<close>.
  \<^item> \<open>new_Metadata\<close> is \<^verbatim>\<open>new(chart.Metadata)\<close>; \<open>unmarshal_Metadata data m\<close> is
    \<^verbatim>\<open>yaml.Unmarshal(f.Data, c.Metadata)\<close> on a record that holds \<open>m\<close>: it returns what the
    record holds afterwards, and the error. \<open>APIVersion\<close> and \<open>set_APIVersion\<close> read and
    assign the field of that name, \<open>APIVersionV3\<close> is the constant of the chart package.
  \<^item> \<open>unmarshal_Lock data\<close> is \<^verbatim>\<open>yaml.Unmarshal(f.Data, &c.Lock)\<close> after
    \<^verbatim>\<open>c.Lock = new(chart.Lock)\<close>: what \<^verbatim>\<open>c.Lock\<close> holds afterwards (nil for a null
    document), and the error.
  \<^item> \<open>yaml_reader data\<close> is the run of \<^verbatim>\<open>reader.Read()\<close> calls on the stream: the documents
    read, and how the stream stops (\<open>None\<close> for \<^verbatim>\<open>io.EOF\<close>, else the read error).
  \<^item> \<open>yaml_value raw\<close> is the value of one document, or the error of a document that is
    not YAML; \<open>not_a_map v\<close> is the error of decoding the value \<open>v\<close> into a Go map.
  \<^item> \<open>Validate\<close>, \<open>ChartName\<close> are \<^verbatim>\<open>c.Validate()\<close> and \<^verbatim>\<open>c.Name()\<close>;
    \<open>LoadArchive\<close> is the archive loader.
  \<^item> \<open>range_rank\<close> is the order in which \<^verbatim>\<open>range subcharts\<close> visits the keys of the map,
    which Go leaves open: keys are visited by increasing rank.
\<close>

record ('m, 'l, 'e) env =
  new_Metadata :: 'm
  unmarshal_Metadata :: "bytes \<Rightarrow> 'm \<Rightarrow> 'm \<times> 'e option"
  APIVersion :: "'m \<Rightarrow> string"
  set_APIVersion :: "string \<Rightarrow> 'm \<Rightarrow> 'm"
  APIVersionV3 :: string
  unmarshal_Lock :: "bytes \<Rightarrow> 'l option \<times> 'e option"
  yaml_reader :: "bytes \<Rightarrow> bytes list \<times> 'e option"
  yaml_value :: "bytes \<Rightarrow> 'e + val"
  not_a_map :: "val \<Rightarrow> 'e"
  Validate :: "('m, 'l) Chart \<Rightarrow> 'e option"
  ChartName :: "('m, 'l) Chart \<Rightarrow> string"
  LoadArchive :: "bytes \<Rightarrow> 'e + ('m, 'l) Chart"
  range_rank :: "string \<Rightarrow> nat"

text \<open>
  \<^verbatim>\<open>yaml.Unmarshal(raw, &currentMap)\<close> on a fresh empty map: the library turns the
  document into a JSON value and decodes that into the map. A mapping fills the map, null
  leaves no entry, and any other value is a type error.
\<close>

definition unmarshal_map :: "('m, 'l, 'e) env \<Rightarrow> bytes \<Rightarrow> 'e + gomap" where
  "unmarshal_map env raw =
     (case yaml_value env raw of
        Inl e \<Rightarrow> Inl e
      | Inr v \<Rightarrow>
          (case v of
             VMap m \<Rightarrow> Inr m
           | VNull \<Rightarrow> Inr []
           | _ \<Rightarrow> Inl (not_a_map env v)))"

section \<open>\<^verbatim>\<open>LoadValues\<close>\<close>

text \<open>
  The loop of \<^verbatim>\<open>LoadValues\<close> over the documents of the stream: each document is decoded
  into \<^verbatim>\<open>currentMap\<close> and merged over \<^verbatim>\<open>values\<close>; a document that does not decode
  ends the loop with an error, and so does a stream that stops with a read error.
\<close>

fun LoadValues_loop ::
  "('m, 'l, 'e) env \<Rightarrow> gomap \<Rightarrow> bytes list \<Rightarrow> 'e option \<Rightarrow> 'e error + gomap" where
  "LoadValues_loop env values [] stop =
     (case stop of
        None \<Rightarrow> Inr values
      | Some e \<Rightarrow> Inl (ErrorReadingYamlDocument e))"
| "LoadValues_loop env values (raw # rest) stop =
     (case unmarshal_map env raw of
        Inl e \<Rightarrow> Inl (CannotUnmarshalYamlDocument e)
      | Inr currentMap \<Rightarrow> LoadValues_loop env (MergeMaps values currentMap) rest stop)"

definition LoadValues :: "('m, 'l, 'e) env \<Rightarrow> bytes \<Rightarrow> 'e error + gomap" where
  "LoadValues env data =
     (case yaml_reader env data of (docs, stop) \<Rightarrow> LoadValues_loop env [] docs stop)"

section \<open>\<^verbatim>\<open>LoadFiles\<close>\<close>

text \<open>
  The first loop: every file is appended to \<^verbatim>\<open>c.Raw\<close>, and every \<^verbatim>\<open>Chart.yaml\<close> is
  decoded into \<^verbatim>\<open>c.Metadata\<close>, which is allocated when it is nil and kept otherwise.
\<close>

fun first_pass ::
  "('m, 'l, 'e) env \<Rightarrow> BufferedFile list \<Rightarrow> ('m, 'l) Chart \<Rightarrow> ('m, 'l) Chart \<times> 'e error option" where
  "first_pass env [] c = (c, None)"
| "first_pass env (f # files) c =
     (let c = set_Raw (Raw c @ [File (Name f) (Data f)]) c in
      if Name f = ''Chart.yaml'' then
        (case unmarshal_Metadata env (Data f)
                (case Metadata c of None \<Rightarrow> new_Metadata env | Some m \<Rightarrow> m) of
           (m, Some e) \<Rightarrow> (set_Metadata (Some m) c, Some (CannotLoadChartYaml e))
         | (m, None) \<Rightarrow>
             first_pass env files
               (set_Metadata
                  (Some (if APIVersion env m = [] then set_APIVersion env (APIVersionV3 env) m else m))
                  c))
      else first_pass env files c)"

text \<open>
  The map \<^verbatim>\<open>subcharts\<close>, from the name of a subchart to its buffered files, and the
  assignment \<^verbatim>\<open>subcharts[cname] = append(subcharts[cname], bf)\<close>.
\<close>

type_synonym subcharts = "(string \<times> BufferedFile list) list"

definition append_subchart :: "string \<Rightarrow> BufferedFile \<Rightarrow> subcharts \<Rightarrow> subcharts" where
  "append_subchart cname bf subcharts =
     AList.update cname
       ((case map_of subcharts cname of None \<Rightarrow> [] | Some fs \<Rightarrow> fs) @ [bf])
       subcharts"

text \<open>The body of the second loop: the \<^verbatim>\<open>switch\<close> on the name of one file.\<close>

definition classify ::
  "('m, 'l, 'e) env \<Rightarrow> BufferedFile \<Rightarrow> ('m, 'l) Chart \<Rightarrow> subcharts
     \<Rightarrow> ('m, 'l) Chart \<times> subcharts \<times> 'e error option" where
  "classify env f c subcharts =
     (if Name f = ''Chart.yaml'' then (c, subcharts, None)
      else if Name f = ''Chart.lock'' then
        (case unmarshal_Lock env (Data f) of
           (l, Some e) \<Rightarrow> (set_Lock l c, subcharts, Some (CannotLoadChartLock e))
         | (l, None) \<Rightarrow> (set_Lock l c, subcharts, None))
      else if Name f = ''values.yaml'' then
        (case LoadValues env (Data f) of
           Inl e \<Rightarrow> (c, subcharts, Some (CannotLoadValuesYaml e))
         | Inr values \<Rightarrow> (set_Values (Some values) c, subcharts, None))
      else if Name f = ''values.schema.json'' then (set_Schema (Data f) c, subcharts, None)
      else if HasPrefix (Name f) ''templates/'' then
        (set_Templates (Templates c @ [File (Name f) (Data f)]) c, subcharts, None)
      else if HasPrefix (Name f) ''charts/'' then
        (if Ext (Name f) = ''.prov'' then
           (set_Files (Files c @ [File (Name f) (Data f)]) c, subcharts, None)
         else
           (let fname = TrimPrefix (Name f) ''charts/'';
                cname = hd (SplitN2 fname CHR ''/'')
            in (c, append_subchart cname \<lparr>Name = fname, Data = Data f\<rparr> subcharts, None)))
      else (set_Files (Files c @ [File (Name f) (Data f)]) c, subcharts, None))"

fun second_pass ::
  "('m, 'l, 'e) env \<Rightarrow> BufferedFile list \<Rightarrow> ('m, 'l) Chart \<Rightarrow> subcharts
     \<Rightarrow> ('m, 'l) Chart \<times> subcharts \<times> 'e error option" where
  "second_pass env [] c subcharts = (c, subcharts, None)"
| "second_pass env (f # files) c subcharts =
     (case classify env f c subcharts of
        (c, subcharts, Some e) \<Rightarrow> (c, subcharts, Some e)
      | (c, subcharts, None) \<Rightarrow> second_pass env files c subcharts)"

text \<open>
  The inner loop of the default case: a member with no \<^verbatim>\<open>/\<close> in its name is left out,
  the others lose their first path segment.
\<close>

fun trim_members :: "BufferedFile list \<Rightarrow> BufferedFile list" where
  "trim_members [] = []"
| "trim_members (f # files) =
     (case SplitN2 (Name f) CHR ''/'' of
        [p0, p1] \<Rightarrow> f\<lparr>Name := p1\<rparr> # trim_members files
      | _ \<Rightarrow> trim_members files)"

text \<open>
  The sizes by which the recursion of \<^verbatim>\<open>LoadFiles\<close> ends: each call on a subchart gets
  files whose names are shorter than those of the files it was built from.
\<close>

definition fsize :: "BufferedFile list \<Rightarrow> nat" where
  "fsize files = sum_list (map (\<lambda>f. Suc (length (Name f))) files)"

definition gsize :: "subcharts \<Rightarrow> nat" where
  "gsize subcharts = sum_list (map (\<lambda>g. Suc (fsize (snd g))) subcharts)"

text \<open>
  \<^verbatim>\<open>LoadFiles\<close>, and its last loop \<open>load_subcharts\<close> over the entries of
  \<^verbatim>\<open>subcharts\<close>. Every \<^verbatim>\<open>return\<close> of the source returns \<^verbatim>\<open>c\<close> with the error, so
  the result is the chart and the error, \<open>None\<close> for nil.
\<close>

function
  LoadFiles ::
    "('m, 'l, 'e) env \<Rightarrow> BufferedFile list \<Rightarrow> ('m, 'l) Chart \<times> 'e error option"
and
  load_subcharts ::
    "('m, 'l, 'e) env \<Rightarrow> ('m, 'l) Chart \<Rightarrow> subcharts \<Rightarrow> ('m, 'l) Chart \<times> 'e error option"
where
  "LoadFiles env files =
     (case first_pass env files new_Chart of
        (c, Some e) \<Rightarrow> (c, Some e)
      | (c, None) \<Rightarrow>
          (case second_pass env files c [] of
             (c, subcharts, Some e) \<Rightarrow> (c, Some e)
           | (c, subcharts, None) \<Rightarrow>
               if Metadata c = None then (c, Some ChartYamlMissing)
               else
                 (case Validate env c of
                    Some e \<Rightarrow> (c, Some (Foreign e))
                  | None \<Rightarrow>
                      load_subcharts env c (sort_key (\<lambda>g. range_rank env (fst g)) subcharts))))"
| "load_subcharts env c [] = (c, None)"
| "load_subcharts env c ((n, files) # rest) =
     (if IndexAny n ''_.'' = 0 then load_subcharts env c rest
      else if Ext n = ''.tgz'' then
        (case files of
           [] \<Rightarrow> (c, Some PanicIndexOutOfRange)
         | file # _ \<Rightarrow>
             if Name file \<noteq> n
             then (c, Some (SubchartTarMismatch (ChartName env c) n (Name file)))
             else
               (case LoadArchive env (Data file) of
                  Inl e \<Rightarrow> (c, Some (ErrorUnpackingSubchart n (ChartName env c) (Foreign e)))
                | Inr sc \<Rightarrow> load_subcharts env (AddDependency c sc) rest))
      else
        (case LoadFiles env (trim_members files) of
           (sc, Some e) \<Rightarrow> (c, Some (ErrorUnpackingSubchart n (ChartName env c) e))
         | (sc, None) \<Rightarrow> load_subcharts env (AddDependency c sc) rest))"
  by pat_completeness auto

lemma SplitN2_rest_shorter: "SplitN2 s sep = [p0, p1] \<Longrightarrow> length p1 < length s"
proof -
  assume a: "SplitN2 s sep = [p0, p1]"
  then have mem: "sep \<in> set s" and p1: "p1 = tl (dropWhile (\<lambda>c. c \<noteq> sep) s)"
    by (auto simp: SplitN2_def split: if_splits)
  from mem have ne: "dropWhile (\<lambda>c. c \<noteq> sep) s \<noteq> []" by simp
  have "length (dropWhile (\<lambda>c. c \<noteq> sep) s) \<le> length s" by (rule length_dropWhile_le)
  with ne show ?thesis unfolding p1 by (cases "dropWhile (\<lambda>c. c \<noteq> sep) s") auto
qed

lemma fsize_Cons [simp]: "fsize (f # files) = Suc (length (Name f)) + fsize files"
  by (simp add: fsize_def)

lemma fsize_Nil [simp]: "fsize [] = 0"
  by (simp add: fsize_def)

lemma fsize_append [simp]: "fsize (xs @ ys) = fsize xs + fsize ys"
  by (simp add: fsize_def)

lemma gsize_Cons [simp]: "gsize (g # subcharts) = Suc (fsize (snd g)) + gsize subcharts"
  by (simp add: gsize_def)

lemma gsize_Nil [simp]: "gsize [] = 0"
  by (simp add: gsize_def)

lemma fsize_trim_members: "fsize (trim_members files) \<le> fsize files"
proof (induction files)
  case Nil
  then show ?case by simp
next
  case (Cons f files)
  show ?case
  proof (cases "\<exists>p0 p1. SplitN2 (Name f) CHR ''/'' = [p0, p1]")
    case True
    then obtain p0 p1 where sp: "SplitN2 (Name f) CHR ''/'' = [p0, p1]" by blast
    from SplitN2_rest_shorter [OF sp] Cons.IH show ?thesis by (simp add: sp)
  next
    case False
    then have "trim_members (f # files) = trim_members files"
      by (auto split: list.splits)
    with Cons.IH show ?thesis by simp
  qed
qed

lemma gsize_append_subchart:
  "gsize (append_subchart cname bf subcharts) \<le> gsize subcharts + Suc (Suc (length (Name bf)))"
  by (induction subcharts) (auto simp: append_subchart_def)

lemma HasPrefix_length: "HasPrefix s p \<Longrightarrow> length p \<le> length s"
proof -
  assume "HasPrefix s p"
  then have "length (take (length p) s) = length p" by (simp only: HasPrefix_def)
  then show ?thesis by simp
qed

text \<open>The names that the second loop buffers into \<^verbatim>\<open>subcharts\<close>.\<close>

definition is_member :: "string \<Rightarrow> bool" where
  "is_member name =
     (name \<noteq> ''Chart.yaml'' \<and> name \<noteq> ''Chart.lock'' \<and> name \<noteq> ''values.yaml'' \<and>
      name \<noteq> ''values.schema.json'' \<and> \<not> HasPrefix name ''templates/'' \<and>
      HasPrefix name ''charts/'' \<and> Ext name \<noteq> ''.prov'')"

lemma classify_subcharts:
  "fst (snd (classify env f c subcharts)) =
     (if is_member (Name f)
      then append_subchart (hd (SplitN2 (TrimPrefix (Name f) ''charts/'') CHR ''/''))
             \<lparr>Name = TrimPrefix (Name f) ''charts/'', Data = Data f\<rparr> subcharts
      else subcharts)"
  unfolding classify_def is_member_def Let_def
  by (simp split: prod.split option.split sum.split)

lemma classify_size:
  "classify env f c subcharts = (c', subcharts', e) \<Longrightarrow>
   gsize subcharts' \<le> gsize subcharts + Suc (length (Name f))"
proof -
  assume a: "classify env f c subcharts = (c', subcharts', e)"
  define bf where "bf = \<lparr>Name = TrimPrefix (Name f) ''charts/'', Data = Data f\<rparr>"
  define cname where "cname = hd (SplitN2 (TrimPrefix (Name f) ''charts/'') CHR ''/'')"
  have sub: "subcharts' = (if is_member (Name f) then append_subchart cname bf subcharts else subcharts)"
    using classify_subcharts [of env f c subcharts] a by (simp add: bf_def cname_def)
  show ?thesis
  proof (cases "is_member (Name f)")
    case True
    then have pre: "HasPrefix (Name f) ''charts/''" by (simp add: is_member_def)
    have "gsize (append_subchart cname bf subcharts)
          \<le> gsize subcharts + Suc (Suc (length (Name bf)))"
      by (rule gsize_append_subchart)
    also have "Suc (Suc (length (Name bf))) \<le> Suc (length (Name f))"
      using pre HasPrefix_length [of "Name f" "''charts/''"]
      by (simp add: bf_def TrimPrefix_def)
    finally show ?thesis using True sub by simp
  next
    case False
    then show ?thesis using sub by simp
  qed
qed

lemma second_pass_size:
  "second_pass env files c subcharts = (c', subcharts', e) \<Longrightarrow>
   gsize subcharts' \<le> gsize subcharts + fsize files"
proof (induction files arbitrary: c subcharts)
  case Nil
  then show ?case by simp
next
  case (Cons f files)
  obtain c1 s1 e1 where cl: "classify env f c subcharts = (c1, s1, e1)"
    by (cases "classify env f c subcharts") auto
  note sz = classify_size [OF cl]
  show ?case
  proof (cases e1)
    case None
    with Cons.prems cl have "second_pass env files c1 s1 = (c', subcharts', e)" by simp
    from Cons.IH [OF this] sz show ?thesis by simp
  next
    case (Some err)
    with Cons.prems cl have "subcharts' = s1" by simp
    with sz show ?thesis by simp
  qed
qed

lemma sum_list_insort_key:
  "sum_list (map g (insort_key f x xs)) = g x + sum_list (map (g :: 'a \<Rightarrow> nat) xs)"
  by (induction xs) auto

lemma sum_list_sort_key:
  "sum_list (map g (sort_key f xs)) = sum_list (map (g :: 'a \<Rightarrow> nat) xs)"
  by (induction xs) (auto simp: sum_list_insort_key)

lemma gsize_sort_key: "gsize (sort_key f subcharts) = gsize subcharts"
  by (simp add: gsize_def sum_list_sort_key)

termination LoadFiles
proof (relation "measure (\<lambda>x. case x of
                      Inl (env, files) \<Rightarrow> 2 * fsize files + 1
                    | Inr (env, c, subcharts) \<Rightarrow> 2 * gsize subcharts)", goal_cases)
  case 1
  then show ?case by simp
next
  case (2 env files x y xa ya xb yb)
  then have "second_pass env files x [] = (xa, xb, yb)" by simp
  from second_pass_size [OF this] show ?case by (simp add: gsize_sort_key)
next
  case 3
  then show ?case by simp
next
  case 4
  then show ?case by simp
next
  case (5 env c n files rest)
  show ?case using fsize_trim_members [of files] by simp
next
  case 6
  then show ?case by simp
qed

section \<open>A sample of the collaborators\<close>

text \<open>
  To run \<^verbatim>\<open>LoadFiles\<close> on concrete files the collaborators need values. \<open>sample_env\<close>
  decodes the flat fragment of YAML, one \<^verbatim>\<open>key: value\<close> pair per line with string values,
  as the library does there: decoding into a record assigns the fields the document
  names and leaves the others as they are, a document without lines is null, lines that
  start with \<^verbatim>\<open>- \<close> make a sequence, and a line \<^verbatim>\<open>---\<close> separates documents. The
  metadata has a name, a version and an API version, the lock a digest; the validator
  wants a name and a version; no data is a readable archive.
\<close>

record sample_metadata =
  md_name :: string
  md_version :: string
  md_apiVersion :: string

fun split_lines :: "string \<Rightarrow> string list" where
  "split_lines [] = [[]]"
| "split_lines (c # s) =
     (if c = CHR 0x0A then [] # split_lines s
      else (case split_lines s of l # ls \<Rightarrow> (c # l) # ls | [] \<Rightarrow> [[c]]))"

fun decode_fields :: "string list \<Rightarrow> string + (string \<times> string) list" where
  "decode_fields [] = Inr []"
| "decode_fields (l # ls) =
     (if l = [] then decode_fields ls
      else if HasPrefix (dropWhile (\<lambda>c. c \<noteq> CHR '':'') l) '': '' then
        (case decode_fields ls of
           Inl e \<Rightarrow> Inl e
         | Inr kvs \<Rightarrow>
             Inr ((takeWhile (\<lambda>c. c \<noteq> CHR '':'') l,
                   drop 2 (dropWhile (\<lambda>c. c \<noteq> CHR '':'') l)) # kvs))
      else Inl ''yaml: could not find expected key'')"

definition assign_field :: "sample_metadata \<Rightarrow> string \<times> string \<Rightarrow> sample_metadata" where
  "assign_field m kv =
     (if fst kv = ''name'' then m\<lparr>md_name := snd kv\<rparr>
      else if fst kv = ''version'' then m\<lparr>md_version := snd kv\<rparr>
      else if fst kv = ''apiVersion'' then m\<lparr>md_apiVersion := snd kv\<rparr>
      else m)"

definition sample_unmarshal_Metadata ::
  "bytes \<Rightarrow> sample_metadata \<Rightarrow> sample_metadata \<times> string option" where
  "sample_unmarshal_Metadata data m =
     (case decode_fields (split_lines data) of
        Inl e \<Rightarrow> (m, Some e)
      | Inr kvs \<Rightarrow> (foldl assign_field m kvs, None))"

definition sample_unmarshal_Lock :: "bytes \<Rightarrow> string option \<times> string option" where
  "sample_unmarshal_Lock data =
     (case decode_fields (split_lines data) of
        Inl e \<Rightarrow> (Some [], Some e)
      | Inr kvs \<Rightarrow>
          (if kvs = [] then (None, None)
           else (Some (case map_of kvs ''digest'' of None \<Rightarrow> [] | Some d \<Rightarrow> d), None)))"

fun sample_documents :: "string list \<Rightarrow> string list \<Rightarrow> string list list" where
  "sample_documents [] doc = (if doc = [] then [] else [doc])"
| "sample_documents (l # ls) doc =
     (if l = ''---'' then (if doc = [] then [] else [doc]) @ sample_documents ls []
      else sample_documents ls (doc @ [l]))"

definition join_lines :: "string list \<Rightarrow> string" where
  "join_lines ls = concat (map (\<lambda>l. l @ [CHR 0x0A]) ls)"

definition sample_yaml_reader :: "bytes \<Rightarrow> bytes list \<times> string option" where
  "sample_yaml_reader data =
     (map join_lines (sample_documents (filter (\<lambda>l. l \<noteq> []) (split_lines data)) []), None)"

definition sample_yaml_value :: "bytes \<Rightarrow> string + val" where
  "sample_yaml_value raw =
     (let ls = filter (\<lambda>l. l \<noteq> []) (split_lines raw) in
      if ls = [] then Inr VNull
      else if list_all (\<lambda>l. HasPrefix l ''- '') ls then Inr (VSeq (map (\<lambda>l. VStr (drop 2 l)) ls))
      else (case decode_fields ls of
              Inl e \<Rightarrow> Inl e
            | Inr kvs \<Rightarrow> Inr (VMap (foldl (\<lambda>m kv. AList.update (fst kv) (VStr (snd kv)) m) [] kvs))))"

definition sample_env :: "(sample_metadata, string, string) env" where
  "sample_env =
     \<lparr>new_Metadata = \<lparr>md_name = [], md_version = [], md_apiVersion = []\<rparr>,
      unmarshal_Metadata = sample_unmarshal_Metadata,
      APIVersion = md_apiVersion,
      set_APIVersion = (\<lambda>v m. m\<lparr>md_apiVersion := v\<rparr>),
      APIVersionV3 = ''v3'',
      unmarshal_Lock = sample_unmarshal_Lock,
      yaml_reader = sample_yaml_reader,
      yaml_value = sample_yaml_value,
      not_a_map = (\<lambda>v. ''json: cannot unmarshal into Go value of type map[string]interface {}''),
      Validate = (\<lambda>c. case Metadata c of
                          None \<Rightarrow> Some ''chart.metadata is required''
                        | Some m \<Rightarrow>
                            if md_name m = [] then Some ''chart.metadata.name is required''
                            else if md_version m = [] then Some ''chart.metadata.version is required''
                            else None),
      ChartName = (\<lambda>c. case Metadata c of None \<Rightarrow> [] | Some m \<Rightarrow> md_name m),
      LoadArchive = (\<lambda>data. Inl ''gzip: invalid header''),
      range_rank = (\<lambda>n. 0)\<rparr>"

text \<open>The line feed, to write the data of a file in lines.\<close>

definition nl :: string where
  "nl = [CHR 0x0A]"

section \<open>Properties of the deep merge\<close>

lemma map_of_MergeMaps_other:
  "k \<notin> fst ` set b \<Longrightarrow> map_of (MergeMaps a b) k = map_of a k"
  by (induction a b rule: MergeMaps.induct) (auto simp: update_conv')

lemma map_of_MergeMaps:
  "distinct (map fst b) \<Longrightarrow>
   map_of (MergeMaps a b) k =
     (case map_of b k of
        None \<Rightarrow> map_of a k
      | Some v \<Rightarrow>
          Some (case v of
                  VMap vm \<Rightarrow> (case map_of a k of Some (VMap bv) \<Rightarrow> VMap (MergeMaps bv vm) | _ \<Rightarrow> v)
                | _ \<Rightarrow> v))"
proof (induction b arbitrary: a)
  case Nil
  then show ?case by simp
next
  case (Cons kv b)
  show ?case
  proof (cases "k = fst kv")
    case True
    then have kv: "kv = (k, snd kv)" by simp
    from Cons.prems True have "k \<notin> fst ` set b" by auto
    then show ?thesis
      by (subst kv, subst (2) kv) (simp add: map_of_MergeMaps_other update_conv')
  next
    case False
    obtain k' v' where kv: "kv = (k', v')" by (cases kv)
    from Cons.prems have d: "distinct (map fst b)" by simp
    from False kv have ne: "k' \<noteq> k" by auto
    show ?thesis unfolding kv using ne
      by (simp add: Cons.IH [OF d] update_conv' cong: option.case_cong val.case_cong)
  qed
qed

lemma MergeMaps_fixed:
  "distinct (map fst b) \<Longrightarrow> (\<forall>kv \<in> set b. map_of out (fst kv) = Some (snd kv) \<and> distinct_keys (snd kv))
   \<Longrightarrow> MergeMaps out b = out"
proof (induction out b rule: MergeMaps.induct)
  case (1 out)
  then show ?case by simp
next
  case (2 out k v b)
  have look: "map_of out k = Some v" and dv: "distinct_keys v" using "2.prems" by auto
  have x: "(case v of
             VMap vm \<Rightarrow> (case map_of out k of Some (VMap bv) \<Rightarrow> VMap (MergeMaps bv vm) | _ \<Rightarrow> v)
           | _ \<Rightarrow> v) = v"
  proof (cases v)
    case (VMap vm)

    have "MergeMaps vm vm = vm"
      using "2.IH"(1) [of vm "VMap vm" vm] VMap look dv by auto
    then show ?thesis using VMap look by simp
  qed simp_all
  have upd: "AList.update k v out = out" using look by (rule update_triv)
  show ?case using "2.IH"(2) "2.prems" by (simp add: x upd)
qed

lemma MergeMaps_again:
  "distinct_keys (VMap b) \<Longrightarrow> MergeMaps (MergeMaps a b) b = MergeMaps a b"
proof (induction a b rule: MergeMaps.induct)
  case (1 out)
  then show ?case by simp
next
  case (2 out k v b)
  define x where "x = (case v of
             VMap vm \<Rightarrow> (case map_of out k of Some (VMap bv) \<Rightarrow> VMap (MergeMaps bv vm) | _ \<Rightarrow> v)
           | _ \<Rightarrow> v)"
  define out' where "out' = AList.update k x out"
  define R where "R = MergeMaps out' b"
  have step: "MergeMaps out ((k, v) # b) = R" by (simp add: R_def out'_def x_def)
  from "2.prems" have d: "distinct (map fst b)" and nk: "k \<notin> fst ` set b"
    and dv: "distinct_keys v" and db: "distinct_keys (VMap b)" by auto
  from nk have none: "map_of b k = None" by (simp add: map_of_eq_None_iff)
  have Rk: "map_of R k = Some x"
    by (simp add: R_def out'_def map_of_MergeMaps [OF d] none update_conv')
  have gx: "(case v of
             VMap vm \<Rightarrow> (case map_of R k of Some (VMap bv) \<Rightarrow> VMap (MergeMaps bv vm) | _ \<Rightarrow> v)
           | _ \<Rightarrow> v) = x"
  proof (cases v)
    case (VMap vm)
    have self: "MergeMaps vm vm = vm"
      using dv VMap by (intro MergeMaps_fixed) auto
    show ?thesis
    proof (cases "\<exists>bv. map_of out k = Some (VMap bv)")
      case True
      then obtain bv where bv: "map_of out k = Some (VMap bv)" by blast
      have "MergeMaps (MergeMaps bv vm) vm = MergeMaps bv vm"
        using "2.IH"(1) [OF VMap bv refl] dv VMap by simp
      then show ?thesis using VMap bv Rk by (simp add: x_def)
    next
      case False
      then have "x = v" by (auto simp: x_def VMap split: option.splits val.splits)
      then show ?thesis using VMap Rk self by simp
    qed
  qed (simp_all add: x_def)
  have "MergeMaps R ((k, v) # b) = MergeMaps (AList.update k x R) b" by (simp add: gx)
  also have "AList.update k x R = R" using Rk by (rule update_triv)
  also have "MergeMaps R b = R"
    unfolding R_def out'_def x_def using "2.IH"(2) db by simp
  finally show ?case unfolding step .
qed

text \<open>
  C1. The contract of \<^verbatim>\<open>MergeMaps(base, overlay)\<close>. For a key of both maps whose two
  values are maps, the result holds the merge of the two. For every other key of the
  overlay the result holds the overlay's value, whatever the base holds there: a
  sequence, a scalar, or a map against a value that is not a map replaces and is never
  combined. A key that the overlay does not have keeps the value of the base. The two
  examples of the specification follow. The overlay is a Go map, so its keys are distinct.
\<close>

theorem MergeMaps_contract:
  assumes "distinct (map fst overlay)"
  shows "(\<forall>k bm om. map_of base k = Some (VMap bm) \<and> map_of overlay k = Some (VMap om)
            \<longrightarrow> map_of (MergeMaps base overlay) k = Some (VMap (MergeMaps bm om)))
       \<and> (\<forall>k v. map_of overlay k = Some v
                \<and> \<not> (\<exists>bm om. map_of base k = Some (VMap bm) \<and> v = VMap om)
            \<longrightarrow> map_of (MergeMaps base overlay) k = Some v)
       \<and> (\<forall>k. map_of overlay k = None
            \<longrightarrow> map_of (MergeMaps base overlay) k = map_of base k)
       \<and> MergeMaps [(''x'', VMap [(''a'', VNum 1), (''b'', VNum 2)])]
                    [(''x'', VMap [(''b'', VNum 3)])]
           = [(''x'', VMap [(''a'', VNum 1), (''b'', VNum 3)])]
       \<and> MergeMaps [(''x'', VMap [(''a'', VNum 1)])] [(''x'', VSeq [VNum 1, VNum 2])]
           = [(''x'', VSeq [VNum 1, VNum 2])]"
proof (intro conjI allI impI)
  fix k bm om
  assume "map_of base k = Some (VMap bm) \<and> map_of overlay k = Some (VMap om)"
  then show "map_of (MergeMaps base overlay) k = Some (VMap (MergeMaps bm om))"
    by (simp add: map_of_MergeMaps [OF assms])
next
  fix k v
  assume a: "map_of overlay k = Some v
               \<and> \<not> (\<exists>bm om. map_of base k = Some (VMap bm) \<and> v = VMap om)"
  then show "map_of (MergeMaps base overlay) k = Some v"
    by (auto simp: map_of_MergeMaps [OF assms] split: val.splits option.splits)
next
  fix k
  assume "map_of overlay k = None"
  then show "map_of (MergeMaps base overlay) k = map_of base k"
    by (simp add: map_of_MergeMaps [OF assms])
qed simp_all

theorem MergeMaps_contract_witness:
  "distinct (map fst [(''x'', VMap [(''b'', VNum 3)]), (''y'', VSeq [VNum 1]), (''n'', VStr ''new'')])
   \<and> map_of (MergeMaps [(''x'', VMap [(''a'', VNum 1), (''b'', VNum 2)]),
                        (''y'', VMap [(''c'', VNum 4)]), (''z'', VBool True)]
                       [(''x'', VMap [(''b'', VNum 3)]), (''y'', VSeq [VNum 1]), (''n'', VStr ''new'')])
             ''x''
       = Some (VMap (MergeMaps [(''a'', VNum 1), (''b'', VNum 2)] [(''b'', VNum 3)]))
   \<and> map_of (MergeMaps [(''x'', VMap [(''a'', VNum 1), (''b'', VNum 2)]),
                        (''y'', VMap [(''c'', VNum 4)]), (''z'', VBool True)]
                       [(''x'', VMap [(''b'', VNum 3)]), (''y'', VSeq [VNum 1]), (''n'', VStr ''new'')])
             ''y''
       = Some (VSeq [VNum 1])
   \<and> map_of (MergeMaps [(''x'', VMap [(''a'', VNum 1), (''b'', VNum 2)]),
                        (''y'', VMap [(''c'', VNum 4)]), (''z'', VBool True)]
                       [(''x'', VMap [(''b'', VNum 3)]), (''y'', VSeq [VNum 1]), (''n'', VStr ''new'')])
             ''z''
       = Some (VBool True)"
  using MergeMaps_contract
          [of "[(''x'', VMap [(''b'', VNum 3)]), (''y'', VSeq [VNum 1]), (''n'', VStr ''new'')]"
              "[(''x'', VMap [(''a'', VNum 1), (''b'', VNum 2)]),
                (''y'', VMap [(''c'', VNum 4)]), (''z'', VBool True)]"]
  by simp

text \<open>
  C6. Merging the same overlay a second time changes nothing:
  \<^verbatim>\<open>MergeMaps(MergeMaps(a, b), b)\<close> is \<^verbatim>\<open>MergeMaps(a, b)\<close>, for every map \<^verbatim>\<open>a\<close> and
  every Go map \<^verbatim>\<open>b\<close> (distinct keys, in \<^verbatim>\<open>b\<close> and in the maps nested in it).
\<close>

theorem MergeMaps_idempotent:
  "distinct_keys (VMap b) \<Longrightarrow> MergeMaps (MergeMaps a b) b = MergeMaps a b"
  by (rule MergeMaps_again)

theorem MergeMaps_idempotent_witness:
  "distinct_keys (VMap [(''x'', VMap [(''b'', VNum 3), (''c'', VMap [])]), (''y'', VSeq [VNum 1])])
   \<and> MergeMaps
         (MergeMaps [(''x'', VMap [(''a'', VNum 1), (''b'', VNum 2)]), (''y'', VStr ''s'')]
                    [(''x'', VMap [(''b'', VNum 3), (''c'', VMap [])]), (''y'', VSeq [VNum 1])])
         [(''x'', VMap [(''b'', VNum 3), (''c'', VMap [])]), (''y'', VSeq [VNum 1])]
       = [(''x'', VMap [(''a'', VNum 1), (''b'', VNum 3), (''c'', VMap [])]), (''y'', VSeq [VNum 1])]"
  using MergeMaps_idempotent
          [of "[(''x'', VMap [(''b'', VNum 3), (''c'', VMap [])]), (''y'', VSeq [VNum 1])]"
              "[(''x'', VMap [(''a'', VNum 1), (''b'', VNum 2)]), (''y'', VStr ''s'')]"]
  by simp

section \<open>The fields of a chart under the assignments\<close>

lemma Raw_set [simp]:
  "Raw (set_Raw x c) = x"
  "Raw (set_Metadata m c) = Raw c"
  "Raw (set_Lock l c) = Raw c"
  "Raw (set_Values v c) = Raw c"
  "Raw (set_Schema b c) = Raw c"
  "Raw (set_Templates x c) = Raw c"
  "Raw (set_Files x c) = Raw c"
  "Raw (AddDependency c sc) = Raw c"
  by (simp_all add: set_Raw_def set_Metadata_def set_Lock_def set_Values_def set_Schema_def
        set_Templates_def set_Files_def AddDependency_def)

lemma Metadata_set [simp]:
  "Metadata (set_Raw x c) = Metadata c"
  "Metadata (set_Metadata m c) = m"
  "Metadata (set_Lock l c) = Metadata c"
  "Metadata (set_Values v c) = Metadata c"
  "Metadata (set_Schema b c) = Metadata c"
  "Metadata (set_Templates x c) = Metadata c"
  "Metadata (set_Files x c) = Metadata c"
  "Metadata (AddDependency c sc) = Metadata c"
  by (simp_all add: set_Raw_def set_Metadata_def set_Lock_def set_Values_def set_Schema_def
        set_Templates_def set_Files_def AddDependency_def)

lemma Lock_set [simp]:
  "Lock (set_Raw x c) = Lock c"
  "Lock (set_Metadata m c) = Lock c"
  "Lock (set_Lock l c) = l"
  "Lock (set_Values v c) = Lock c"
  "Lock (set_Schema b c) = Lock c"
  "Lock (set_Templates x c) = Lock c"
  "Lock (set_Files x c) = Lock c"
  "Lock (AddDependency c sc) = Lock c"
  by (simp_all add: set_Raw_def set_Metadata_def set_Lock_def set_Values_def set_Schema_def
        set_Templates_def set_Files_def AddDependency_def)

lemma Values_set [simp]:
  "Values (set_Raw x c) = Values c"
  "Values (set_Metadata m c) = Values c"
  "Values (set_Lock l c) = Values c"
  "Values (set_Values v c) = v"
  "Values (set_Schema b c) = Values c"
  "Values (set_Templates x c) = Values c"
  "Values (set_Files x c) = Values c"
  "Values (AddDependency c sc) = Values c"
  by (simp_all add: set_Raw_def set_Metadata_def set_Lock_def set_Values_def set_Schema_def
        set_Templates_def set_Files_def AddDependency_def)

lemma Schema_set [simp]:
  "Schema (set_Raw x c) = Schema c"
  "Schema (set_Metadata m c) = Schema c"
  "Schema (set_Lock l c) = Schema c"
  "Schema (set_Values v c) = Schema c"
  "Schema (set_Schema b c) = b"
  "Schema (set_Templates x c) = Schema c"
  "Schema (set_Files x c) = Schema c"
  "Schema (AddDependency c sc) = Schema c"
  by (simp_all add: set_Raw_def set_Metadata_def set_Lock_def set_Values_def set_Schema_def
        set_Templates_def set_Files_def AddDependency_def)

lemma Templates_set [simp]:
  "Templates (set_Raw x c) = Templates c"
  "Templates (set_Metadata m c) = Templates c"
  "Templates (set_Lock l c) = Templates c"
  "Templates (set_Values v c) = Templates c"
  "Templates (set_Schema b c) = Templates c"
  "Templates (set_Templates x c) = x"
  "Templates (set_Files x c) = Templates c"
  "Templates (AddDependency c sc) = Templates c"
  by (simp_all add: set_Raw_def set_Metadata_def set_Lock_def set_Values_def set_Schema_def
        set_Templates_def set_Files_def AddDependency_def)

lemma Files_set [simp]:
  "Files (set_Raw x c) = Files c"
  "Files (set_Metadata m c) = Files c"
  "Files (set_Lock l c) = Files c"
  "Files (set_Values v c) = Files c"
  "Files (set_Schema b c) = Files c"
  "Files (set_Templates x c) = Files c"
  "Files (set_Files x c) = x"
  "Files (AddDependency c sc) = Files c"
  by (simp_all add: set_Raw_def set_Metadata_def set_Lock_def set_Values_def set_Schema_def
        set_Templates_def set_Files_def AddDependency_def)

lemma dependencies_set [simp]:
  "dependencies (set_Raw x c) = dependencies c"
  "dependencies (set_Metadata m c) = dependencies c"
  "dependencies (set_Lock l c) = dependencies c"
  "dependencies (set_Values v c) = dependencies c"
  "dependencies (set_Schema b c) = dependencies c"
  "dependencies (set_Templates x c) = dependencies c"
  "dependencies (set_Files x c) = dependencies c"
  "dependencies (AddDependency c sc) = dependencies c @ [sc]"
  by (simp_all add: set_Raw_def set_Metadata_def set_Lock_def set_Values_def set_Schema_def
        set_Templates_def set_Files_def AddDependency_def)

lemma new_Chart_fields [simp]:
  "Raw new_Chart = []" "Metadata new_Chart = None" "Lock new_Chart = None"
  "Values new_Chart = None" "Schema new_Chart = []" "Templates new_Chart = []"
  "Files new_Chart = []" "dependencies new_Chart = []"
  by (simp_all add: new_Chart_def)

section \<open>What each part of the loader does to the chart\<close>

lemma first_pass_Raw:
  "first_pass env files c = (c', e) \<Longrightarrow>
   \<exists>n\<le>length files. Raw c' = Raw c @ map (\<lambda>f. File (Name f) (Data f)) (take n files)
      \<and> (e = None \<longrightarrow> n = length files) \<and> (e \<noteq> None \<longrightarrow> 0 < n)"
proof (induction files arbitrary: c)
  case Nil
  then show ?case by simp
next
  case (Cons f files)
  define c1 where "c1 = set_Raw (Raw c @ [File (Name f) (Data f)]) c"
  show ?case
  proof (cases "Name f = ''Chart.yaml''")
    case False
    with Cons.prems have "first_pass env files c1 = (c', e)" by (simp add: c1_def Let_def)
    from Cons.IH [OF this] obtain n where n: "n \<le> length files"
      "Raw c' = Raw c1 @ map (\<lambda>f. File (Name f) (Data f)) (take n files)"
      "e = None \<longrightarrow> n = length files" by blast
    then show ?thesis by (intro exI [of _ "Suc n"]) (simp add: c1_def)
  next
    case True
    obtain m err where um: "unmarshal_Metadata env (Data f)
        (case Metadata c1 of None \<Rightarrow> new_Metadata env | Some m \<Rightarrow> m) = (m, err)"
      by (cases "unmarshal_Metadata env (Data f)
        (case Metadata c1 of None \<Rightarrow> new_Metadata env | Some m \<Rightarrow> m)") auto
    show ?thesis
    proof (cases err)
      case (Some x)
      with Cons.prems True um have "c' = set_Metadata (Some m) c1" "e \<noteq> None"
        by (auto simp: c1_def Let_def)
      then show ?thesis by (intro exI [of _ "Suc 0"]) (auto simp: c1_def)
    next
      case None
      define c2 where "c2 = set_Metadata (Some (if APIVersion env m = []
                              then set_APIVersion env (APIVersionV3 env) m else m)) c1"
      from None Cons.prems True um have "first_pass env files c2 = (c', e)"
        by (simp add: c1_def c2_def Let_def)
      from Cons.IH [OF this] obtain n where n: "n \<le> length files"
        "Raw c' = Raw c2 @ map (\<lambda>f. File (Name f) (Data f)) (take n files)"
        "e = None \<longrightarrow> n = length files" by blast
      then show ?thesis by (intro exI [of _ "Suc n"]) (simp add: c1_def c2_def)
    qed
  qed
qed

lemma first_pass_other:
  "first_pass env files c = (c', e) \<Longrightarrow>
   Lock c' = Lock c \<and> Values c' = Values c \<and> Schema c' = Schema c \<and>
   Templates c' = Templates c \<and> Files c' = Files c \<and> dependencies c' = dependencies c"
proof (induction files arbitrary: c)
  case Nil
  then show ?case by simp
next
  case (Cons f files)
  then show ?case
    by (fastforce simp: Let_def split: if_splits prod.splits option.splits)
qed

lemma classify_kept:
  "classify env f c subcharts = (c', subcharts', e) \<Longrightarrow>
   Raw c' = Raw c \<and> Metadata c' = Metadata c \<and> dependencies c' = dependencies c"
  unfolding classify_def Let_def
  by (auto split: if_splits prod.splits option.splits sum.splits)

lemma second_pass_kept:
  "second_pass env files c subcharts = (c', subcharts', e) \<Longrightarrow>
   Raw c' = Raw c \<and> Metadata c' = Metadata c \<and> dependencies c' = dependencies c"
proof (induction files arbitrary: c subcharts)
  case Nil
  then show ?case by simp
next
  case (Cons f files)
  obtain c1 s1 e1 where cl: "classify env f c subcharts = (c1, s1, e1)"
    by (cases "classify env f c subcharts") auto
  note k = classify_kept [OF cl]
  show ?case
  proof (cases e1)
    case None
    with Cons.prems cl have "second_pass env files c1 s1 = (c', subcharts', e)" by simp
    from Cons.IH [OF this] k show ?thesis by simp
  next
    case (Some x)
    with Cons.prems cl have "c' = c1" by simp
    with k show ?thesis by simp
  qed
qed

lemma load_subcharts_kept:
  "load_subcharts env c subcharts = (c', e) \<Longrightarrow>
   Raw c' = Raw c \<and> Metadata c' = Metadata c \<and> Lock c' = Lock c \<and> Values c' = Values c \<and>
   Schema c' = Schema c \<and> Templates c' = Templates c \<and> Files c' = Files c"
proof (induction subcharts arbitrary: c)
  case Nil
  then show ?case by simp
next
  case (Cons g subcharts)
  obtain n files where g: "g = (n, files)" by (cases g)
  show ?case
  proof (cases "c' = c")
    case True
    then show ?thesis by simp
  next
    case False
    with Cons.prems g
    have "load_subcharts env c subcharts = (c', e) \<or>
          (\<exists>sc. load_subcharts env (AddDependency c sc) subcharts = (c', e))"
      by (auto split: if_splits list.splits sum.splits prod.splits option.splits)
    then show ?thesis using Cons.IH by fastforce
  qed
qed

declare LoadFiles.simps [simp del]

lemma LoadFiles_cases:
  assumes "LoadFiles env files = (c, e)"
  obtains
    (first) x where "first_pass env files new_Chart = (c, Some x)" "e = Some x"
  | (second) c0 s x where "first_pass env files new_Chart = (c0, None)"
      "second_pass env files c0 [] = (c, s, Some x)" "e = Some x"
  | (missing) c0 s where "first_pass env files new_Chart = (c0, None)"
      "second_pass env files c0 [] = (c, s, None)" "Metadata c = None" "e = Some ChartYamlMissing"
  | (invalid) c0 s x where "first_pass env files new_Chart = (c0, None)"
      "second_pass env files c0 [] = (c, s, None)" "Metadata c \<noteq> None"
      "Validate env c = Some x" "e = Some (Foreign x)"
  | (subcharts) c0 c1 s where "first_pass env files new_Chart = (c0, None)"
      "second_pass env files c0 [] = (c1, s, None)" "Metadata c1 \<noteq> None"
      "Validate env c1 = None"
      "load_subcharts env c1 (sort_key (\<lambda>g. range_rank env (fst g)) s) = (c, e)"
proof -
  obtain c0 e0 where f: "first_pass env files new_Chart = (c0, e0)"
    by (cases "first_pass env files new_Chart") auto
  obtain c1 s e1 where s: "second_pass env files c0 [] = (c1, s, e1)"
    by (cases "second_pass env files c0 []") auto
  show thesis
  proof (cases e0)
    case (Some x)
    with assms f have "c = c0" "e = Some x" by (simp_all add: LoadFiles.simps)
    with f Some first show ?thesis by simp
  next
    case None
    note e0 = this
    show ?thesis
    proof (cases e1)
      case (Some x)
      with assms f s e0 have "c = c1" "e = Some x" by (simp_all add: LoadFiles.simps)
      with f s e0 Some second show ?thesis by simp
    next
      case None
      note e1 = this
      show ?thesis
      proof (cases "Metadata c1 = None")
        case True
        with assms f s e0 e1 have "c = c1" "e = Some ChartYamlMissing"
          by (simp_all add: LoadFiles.simps)
        with f s e0 e1 True missing show ?thesis by simp
      next
        case False
        show ?thesis
        proof (cases "Validate env c1")
          case (Some x)
          with assms f s e0 e1 False have "c = c1" "e = Some (Foreign x)"
            by (simp_all add: LoadFiles.simps)
          with f s e0 e1 False Some invalid show ?thesis by simp
        next
          case None
          with assms f s e0 e1 False
          have "load_subcharts env c1 (sort_key (\<lambda>g. range_rank env (fst g)) s) = (c, e)"
            by (simp add: LoadFiles.simps)
          with f s e0 e1 False None subcharts show ?thesis by simp
        qed
      qed
    qed
  qed
qed

lemma first_pass_error:
  "first_pass env files c = (c', Some x) \<Longrightarrow> \<exists>y. x = CannotLoadChartYaml y"
proof (induction files arbitrary: c)
  case Nil
  then show ?case by simp
next
  case (Cons f files)
  then show ?case
    by (fastforce simp: Let_def split: if_splits prod.splits option.splits)
qed

lemma classify_error:
  "classify env f c subcharts = (c', subcharts', Some x) \<Longrightarrow>
   (\<exists>y. x = CannotLoadChartLock y \<and> Name f = ''Chart.lock'')
   \<or> (\<exists>y. x = CannotLoadValuesYaml y \<and> Name f = ''values.yaml''
           \<and> LoadValues env (Data f) = Inl y \<and> c' = c)"
  unfolding classify_def Let_def
  by (auto split: if_splits prod.splits option.splits sum.splits)

lemma second_pass_error:
  "second_pass env files c subcharts = (c', subcharts', Some x) \<Longrightarrow>
   (\<exists>y. x = CannotLoadChartLock y) \<or> (\<exists>y. x = CannotLoadValuesYaml y)"
proof (induction files arbitrary: c subcharts)
  case Nil
  then show ?case by simp
next
  case (Cons f files)
  obtain c1 s1 e1 where cl: "classify env f c subcharts = (c1, s1, e1)"
    by (cases "classify env f c subcharts") auto
  show ?case
  proof (cases e1)
    case None
    with Cons.prems cl have "second_pass env files c1 s1 = (c', subcharts', Some x)" by simp
    from Cons.IH [OF this] show ?thesis .
  next
    case (Some y)
    with Cons.prems cl have "classify env f c subcharts = (c1, s1, Some x)" by simp
    from classify_error [OF this] show ?thesis by blast
  qed
qed

lemma load_subcharts_error:
  "load_subcharts env c subcharts = (c', Some x) \<Longrightarrow>
   (\<forall>y. x \<noteq> CannotLoadChartYaml y) \<and> (\<forall>y. x \<noteq> CannotLoadChartLock y) \<and>
   (\<forall>y. x \<noteq> CannotLoadValuesYaml y) \<and> x \<noteq> ChartYamlMissing \<and> (\<forall>y. x \<noteq> Foreign y)"
proof (induction subcharts arbitrary: c)
  case Nil
  then show ?case by simp
next
  case (Cons g subcharts)
  obtain n files where g: "g = (n, files)" by (cases g)
  from Cons.prems g
  have "load_subcharts env c subcharts = (c', Some x) \<or>
        (\<exists>sc. load_subcharts env (AddDependency c sc) subcharts = (c', Some x)) \<or>
        x = PanicIndexOutOfRange \<or> (\<exists>a b d. x = SubchartTarMismatch a b d) \<or>
        (\<exists>a b d. x = ErrorUnpackingSubchart a b d)"
    by (auto split: if_splits list.splits sum.splits prod.splits option.splits)
  then show ?case using Cons.IH by fastforce
qed

lemma LoadFiles_Raw_prefix:
  assumes "LoadFiles env files = (c, e)"
  shows "\<exists>n\<le>length files. Raw c = map (\<lambda>f. File (Name f) (Data f)) (take n files)
           \<and> ((\<forall>x. e \<noteq> Some (CannotLoadChartYaml x)) \<longrightarrow> n = length files)
           \<and> (e \<noteq> None \<longrightarrow> 0 < n \<or> files = [])"
  using assms
proof (cases rule: LoadFiles_cases)
  case (first x)
  from first_pass_error [OF first(1)] obtain y where "x = CannotLoadChartYaml y" by blast
  with first_pass_Raw [OF first(1)] first(2) show ?thesis by auto
next
  case (second c0 s x)
  from first_pass_Raw [OF second(1)] second_pass_kept [OF second(2)]
  show ?thesis by (intro exI [of _ "length files"]) auto
next
  case (missing c0 s)
  from first_pass_Raw [OF missing(1)] second_pass_kept [OF missing(2)]
  show ?thesis by (intro exI [of _ "length files"]) auto
next
  case (invalid c0 s x)
  from first_pass_Raw [OF invalid(1)] second_pass_kept [OF invalid(2)]
  show ?thesis by (intro exI [of _ "length files"]) auto
next
  case (subcharts c0 c1 s)
  from first_pass_Raw [OF subcharts(1)] second_pass_kept [OF subcharts(2)]
    load_subcharts_kept [OF subcharts(5)]
  show ?thesis by (intro exI [of _ "length files"]) auto
qed

lemma LoadFiles_Raw_all:
  assumes "LoadFiles env files = (c, e)" and "\<forall>x. e \<noteq> Some (CannotLoadChartYaml x)"
  shows "Raw c = map (\<lambda>f. File (Name f) (Data f)) files"
  using LoadFiles_Raw_prefix [OF assms(1)] assms(2) by auto

text \<open>
  C7. When \<^verbatim>\<open>LoadFiles\<close> succeeds, \<^verbatim>\<open>Raw\<close> of the chart holds the input files, each
  with its name and its data, in the order of the input, however the second loop has
  classified them.
\<close>

theorem LoadFiles_Raw_roundtrip:
  "LoadFiles env files = (c, None) \<Longrightarrow> Raw c = map (\<lambda>f. File (Name f) (Data f)) files"
  using LoadFiles_Raw_all [of env files c None] by simp

theorem LoadFiles_Raw_roundtrip_witness:
  "LoadFiles sample_env
     [\<lparr>Name = ''Chart.yaml'', Data = ''name: a'' @ nl @ ''version: 0.1.0''\<rparr>,
      \<lparr>Name = ''values.yaml'', Data = ''k: v''\<rparr>,
      \<lparr>Name = ''templates/t.yaml'', Data = ''t''\<rparr>,
      \<lparr>Name = ''charts/sub/Chart.yaml'', Data = ''name: sub'' @ nl @ ''version: 0.2.0''\<rparr>,
      \<lparr>Name = ''charts/_h/x'', Data = ''{''\<rparr>,
      \<lparr>Name = ''README.md'', Data = ''r''\<rparr>]
   = (Chart
        [File ''Chart.yaml'' (''name: a'' @ nl @ ''version: 0.1.0''),
         File ''values.yaml'' ''k: v'',
         File ''templates/t.yaml'' ''t'',
         File ''charts/sub/Chart.yaml'' (''name: sub'' @ nl @ ''version: 0.2.0''),
         File ''charts/_h/x'' ''{'',
         File ''README.md'' ''r'']
        (Some \<lparr>md_name = ''a'', md_version = ''0.1.0'', md_apiVersion = ''v3''\<rparr>)
        None
        (Some [(''k'', VStr ''v'')])
        []
        [File ''templates/t.yaml'' ''t'']
        [File ''README.md'' ''r'']
        [Chart
           [File ''Chart.yaml'' (''name: sub'' @ nl @ ''version: 0.2.0'')]
           (Some \<lparr>md_name = ''sub'', md_version = ''0.2.0'', md_apiVersion = ''v3''\<rparr>)
           None None [] [] [] []],
      None)
   \<and> Raw (fst (LoadFiles sample_env
     [\<lparr>Name = ''Chart.yaml'', Data = ''name: a'' @ nl @ ''version: 0.1.0''\<rparr>,
      \<lparr>Name = ''values.yaml'', Data = ''k: v''\<rparr>,
      \<lparr>Name = ''templates/t.yaml'', Data = ''t''\<rparr>,
      \<lparr>Name = ''charts/sub/Chart.yaml'', Data = ''name: sub'' @ nl @ ''version: 0.2.0''\<rparr>,
      \<lparr>Name = ''charts/_h/x'', Data = ''{''\<rparr>,
      \<lparr>Name = ''README.md'', Data = ''r''\<rparr>]))
     = map (\<lambda>f. File (Name f) (Data f))
     [\<lparr>Name = ''Chart.yaml'', Data = ''name: a'' @ nl @ ''version: 0.1.0''\<rparr>,
      \<lparr>Name = ''values.yaml'', Data = ''k: v''\<rparr>,
      \<lparr>Name = ''templates/t.yaml'', Data = ''t''\<rparr>,
      \<lparr>Name = ''charts/sub/Chart.yaml'', Data = ''name: sub'' @ nl @ ''version: 0.2.0''\<rparr>,
      \<lparr>Name = ''charts/_h/x'', Data = ''{''\<rparr>,
      \<lparr>Name = ''README.md'', Data = ''r''\<rparr>]"
proof -
  let ?files = "[\<lparr>Name = ''Chart.yaml'', Data = ''name: a'' @ nl @ ''version: 0.1.0''\<rparr>,
      \<lparr>Name = ''values.yaml'', Data = ''k: v''\<rparr>,
      \<lparr>Name = ''templates/t.yaml'', Data = ''t''\<rparr>,
      \<lparr>Name = ''charts/sub/Chart.yaml'', Data = ''name: sub'' @ nl @ ''version: 0.2.0''\<rparr>,
      \<lparr>Name = ''charts/_h/x'', Data = ''{''\<rparr>,
      \<lparr>Name = ''README.md'', Data = ''r''\<rparr>]"
  have run: "LoadFiles sample_env ?files
   = (Chart
        [File ''Chart.yaml'' (''name: a'' @ nl @ ''version: 0.1.0''),
         File ''values.yaml'' ''k: v'',
         File ''templates/t.yaml'' ''t'',
         File ''charts/sub/Chart.yaml'' (''name: sub'' @ nl @ ''version: 0.2.0''),
         File ''charts/_h/x'' ''{'',
         File ''README.md'' ''r'']
        (Some \<lparr>md_name = ''a'', md_version = ''0.1.0'', md_apiVersion = ''v3''\<rparr>)
        None
        (Some [(''k'', VStr ''v'')])
        []
        [File ''templates/t.yaml'' ''t'']
        [File ''README.md'' ''r'']
        [Chart
           [File ''Chart.yaml'' (''name: sub'' @ nl @ ''version: 0.2.0'')]
           (Some \<lparr>md_name = ''sub'', md_version = ''0.2.0'', md_apiVersion = ''v3''\<rparr>)
           None None [] [] [] []],
      None)"
    by code_simp
  from LoadFiles_Raw_roundtrip [OF run] run show ?thesis by simp
qed

section \<open>The metadata\<close>

lemma first_pass_Metadata:
  "first_pass env files c = (c', None) \<Longrightarrow>
   Metadata c' =
     foldl (\<lambda>md data.
              let m = fst (unmarshal_Metadata env data
                             (case md of None \<Rightarrow> new_Metadata env | Some m \<Rightarrow> m))
              in Some (if APIVersion env m = [] then set_APIVersion env (APIVersionV3 env) m else m))
       (Metadata c) (map Data (filter (\<lambda>f. Name f = ''Chart.yaml'') files))"
proof (induction files arbitrary: c)
  case Nil
  then show ?case by simp
next
  case (Cons f files)
  define c1 where "c1 = set_Raw (Raw c @ [File (Name f) (Data f)]) c"
  show ?case
  proof (cases "Name f = ''Chart.yaml''")
    case False
    with Cons.prems have "first_pass env files c1 = (c', None)" by (simp add: c1_def Let_def)
    from Cons.IH [OF this] False show ?thesis by (simp add: c1_def)
  next
    case True
    obtain m err where um: "unmarshal_Metadata env (Data f)
        (case Metadata c of None \<Rightarrow> new_Metadata env | Some m \<Rightarrow> m) = (m, err)"
      by (cases "unmarshal_Metadata env (Data f)
        (case Metadata c of None \<Rightarrow> new_Metadata env | Some m \<Rightarrow> m)") auto
    define c2 where "c2 = set_Metadata (Some (if APIVersion env m = []
                              then set_APIVersion env (APIVersionV3 env) m else m)) c1"
    from Cons.prems True um have "first_pass env files c2 = (c', None)"
      by (cases err) (simp_all add: c1_def c2_def Let_def)
    from Cons.IH [OF this] True um show ?thesis by (simp add: c1_def c2_def Let_def)
  qed
qed

lemma LoadFiles_Metadata:
  assumes "LoadFiles env files = (c, e)" and "\<forall>x. e \<noteq> Some (CannotLoadChartYaml x)"
  shows "Metadata c = Metadata (fst (first_pass env files new_Chart))
         \<and> snd (first_pass env files new_Chart) = None"
  using assms(1)
proof (cases rule: LoadFiles_cases)
  case (first x)
  from first_pass_error [OF first(1)] first(2) assms(2) show ?thesis by auto
next
  case (second c0 s x)
  from second_pass_kept [OF second(2)] second(1) show ?thesis by simp
next
  case (missing c0 s)
  from second_pass_kept [OF missing(2)] missing(1) show ?thesis by simp
next
  case (invalid c0 s x)
  from second_pass_kept [OF invalid(2)] invalid(1) show ?thesis by simp
next
  case (subcharts c0 c1 s)
  from second_pass_kept [OF subcharts(2)] load_subcharts_kept [OF subcharts(5)] subcharts(1)
  show ?thesis by simp
qed

text \<open>
  C3, as the code has it. The metadata of the chart is what decoding the
  \<^verbatim>\<open>Chart.yaml\<close> entries one after the other, in the order of the input, leaves in one
  record: the first entry is decoded into a new record, every later one into the record
  the entries before it have left, and after each decoding an empty API version is set to
  the default. So the last entry decides every field it assigns, and a field it does not
  assign keeps what the earlier entries gave it. Where decoding does not depend on what
  the record held, the metadata is that of the last entry alone.
\<close>

theorem Metadata_from_all_Chart_yaml:
  assumes "LoadFiles env files = (c, None)"
  shows "Metadata c =
           foldl (\<lambda>md data.
                    let m = fst (unmarshal_Metadata env data
                                   (case md of None \<Rightarrow> new_Metadata env | Some m \<Rightarrow> m))
                    in Some (if APIVersion env m = []
                             then set_APIVersion env (APIVersionV3 env) m else m))
             None (map Data (filter (\<lambda>f. Name f = ''Chart.yaml'') files))
         \<and> ((\<forall>data m m'. unmarshal_Metadata env data m = unmarshal_Metadata env data m')
              \<longrightarrow> Metadata c =
                    (let m = fst (unmarshal_Metadata env
                                    (Data (last (filter (\<lambda>f. Name f = ''Chart.yaml'') files)))
                                    (new_Metadata env))
                     in Some (if APIVersion env m = []
                              then set_APIVersion env (APIVersionV3 env) m else m)))"
proof -
  let ?step = "\<lambda>md data.
                    let m = fst (unmarshal_Metadata env data
                                   (case md of None \<Rightarrow> new_Metadata env | Some m \<Rightarrow> m))
                    in Some (if APIVersion env m = []
                             then set_APIVersion env (APIVersionV3 env) m else m)"
  let ?ys = "filter (\<lambda>f. Name f = ''Chart.yaml'') files"
  from LoadFiles_Metadata [OF assms]
  have m: "Metadata c = Metadata (fst (first_pass env files new_Chart))"
    and ok: "snd (first_pass env files new_Chart) = None" by simp_all
  from ok have "first_pass env files new_Chart = (fst (first_pass env files new_Chart), None)"
    by (metis prod.collapse)
  from first_pass_Metadata [OF this] m
  have fold: "Metadata c = foldl ?step None (map Data ?ys)" by simp
  have some: "Metadata c \<noteq> None"
    using assms by (cases rule: LoadFiles_cases) (auto dest: load_subcharts_kept)
  have "?ys \<noteq> []" using fold some by auto
  then obtain ys y where ys: "?ys = ys @ [y]" by (metis rev_exhaust)
  have last: "(\<forall>data m m'. unmarshal_Metadata env data m = unmarshal_Metadata env data m')
          \<Longrightarrow> foldl ?step None (map Data ?ys) = ?step None (Data (last ?ys))"
  proof -
    assume ind: "\<forall>data m m'. unmarshal_Metadata env data m = unmarshal_Metadata env data m'"
    have "foldl ?step None (map Data ?ys) = ?step (foldl ?step None (map Data ys)) (Data y)"
      by (simp add: ys)
    also have "\<dots> = ?step None (Data y)"
    proof -
      define u where "u = unmarshal_Metadata env (Data y) (new_Metadata env)"
      have eq: "unmarshal_Metadata env (Data y) m = u" for m
        using ind by (simp add: u_def)
      show ?thesis by (simp add: Let_def eq)
    qed
    finally show ?thesis by (simp add: ys)
  qed
  show ?thesis using fold last by (auto simp: Let_def)
qed

theorem Metadata_from_all_Chart_yaml_witness:
  "LoadFiles sample_env
     [\<lparr>Name = ''Chart.yaml'', Data = ''name: a'' @ nl @ ''version: 0.1.0''\<rparr>,
      \<lparr>Name = ''Chart.yaml'', Data = ''name: b''\<rparr>]
   = (Chart [File ''Chart.yaml'' (''name: a'' @ nl @ ''version: 0.1.0''),
             File ''Chart.yaml'' ''name: b'']
        (Some \<lparr>md_name = ''b'', md_version = ''0.1.0'', md_apiVersion = ''v3''\<rparr>)
        None None [] [] [] [], None)
   \<and> foldl (\<lambda>md data.
               let m = fst (unmarshal_Metadata sample_env data
                              (case md of None \<Rightarrow> new_Metadata sample_env | Some m \<Rightarrow> m))
               in Some (if APIVersion sample_env m = []
                        then set_APIVersion sample_env (APIVersionV3 sample_env) m else m))
        None [''name: a'' @ nl @ ''version: 0.1.0'', ''name: b'']
     = Some \<lparr>md_name = ''b'', md_version = ''0.1.0'', md_apiVersion = ''v3''\<rparr>
   \<and> snd (LoadFiles
            (sample_env\<lparr>unmarshal_Metadata :=
               \<lambda>data m. sample_unmarshal_Metadata data (new_Metadata sample_env)\<rparr>)
            [\<lparr>Name = ''Chart.yaml'', Data = ''name: a'' @ nl @ ''version: 0.1.0''\<rparr>,
             \<lparr>Name = ''Chart.yaml'', Data = ''version: 0.2.0'' @ nl @ ''name: b''\<rparr>]) = None
   \<and> Metadata (fst (LoadFiles
            (sample_env\<lparr>unmarshal_Metadata :=
               \<lambda>data m. sample_unmarshal_Metadata data (new_Metadata sample_env)\<rparr>)
            [\<lparr>Name = ''Chart.yaml'', Data = ''name: a'' @ nl @ ''version: 0.1.0''\<rparr>,
             \<lparr>Name = ''Chart.yaml'', Data = ''version: 0.2.0'' @ nl @ ''name: b''\<rparr>]))
     = Some (set_APIVersion sample_env ''v3''
               (fst (sample_unmarshal_Metadata (''version: 0.2.0'' @ nl @ ''name: b'')
                       (new_Metadata sample_env))))"
proof -
  have run: "LoadFiles sample_env
     [\<lparr>Name = ''Chart.yaml'', Data = ''name: a'' @ nl @ ''version: 0.1.0''\<rparr>,
      \<lparr>Name = ''Chart.yaml'', Data = ''name: b''\<rparr>]
   = (Chart [File ''Chart.yaml'' (''name: a'' @ nl @ ''version: 0.1.0''),
             File ''Chart.yaml'' ''name: b'']
        (Some \<lparr>md_name = ''b'', md_version = ''0.1.0'', md_apiVersion = ''v3''\<rparr>)
        None None [] [] [] [], None)"
    by code_simp
  define env2 where "env2 = sample_env\<lparr>unmarshal_Metadata :=
               \<lambda>data m. sample_unmarshal_Metadata data (new_Metadata sample_env)\<rparr>"
  define files2 where "files2 =
            [\<lparr>Name = ''Chart.yaml'', Data = ''name: a'' @ nl @ ''version: 0.1.0''\<rparr>,
             \<lparr>Name = ''Chart.yaml'', Data = ''version: 0.2.0'' @ nl @ ''name: b''\<rparr>]"
  have ok2: "snd (LoadFiles env2 files2) = None"
    unfolding env2_def files2_def by code_simp
  then have run2: "LoadFiles env2 files2 = (fst (LoadFiles env2 files2), None)"
    by (metis prod.collapse)
  have ind: "\<forall>data m m'. unmarshal_Metadata env2 data m = unmarshal_Metadata env2 data m'"
    by (simp add: env2_def)
  have api: "APIVersion env2 (fst (sample_unmarshal_Metadata (''version: 0.2.0'' @ nl @ ''name: b'')
                       (new_Metadata sample_env))) = []"
    unfolding env2_def by code_simp
  have "Metadata (fst (LoadFiles env2 files2))
     = Some (set_APIVersion sample_env ''v3''
               (fst (sample_unmarshal_Metadata (''version: 0.2.0'' @ nl @ ''name: b'')
                       (new_Metadata sample_env))))"
    using Metadata_from_all_Chart_yaml [OF run2] ind api
    by (simp add: files2_def Let_def) (simp add: env2_def sample_env_def)
  with ok2 Metadata_from_all_Chart_yaml [OF run] run show ?thesis
    unfolding env2_def files2_def by simp
qed

text \<open>
  C3 as the specification states it fails: with the entries \<^verbatim>\<open>name: a, version: 0.1.0\<close>
  and then \<^verbatim>\<open>name: b\<close>, loading succeeds and the metadata has the version of the first
  entry, while the last entry alone gives no version.
\<close>

theorem last_Chart_yaml_alone_counterexample:
  "snd (LoadFiles sample_env
          [\<lparr>Name = ''Chart.yaml'', Data = ''name: a'' @ nl @ ''version: 0.1.0''\<rparr>,
           \<lparr>Name = ''Chart.yaml'', Data = ''name: b''\<rparr>]) = None
   \<and> Metadata (fst (LoadFiles sample_env
          [\<lparr>Name = ''Chart.yaml'', Data = ''name: a'' @ nl @ ''version: 0.1.0''\<rparr>,
           \<lparr>Name = ''Chart.yaml'', Data = ''name: b''\<rparr>]))
       = Some \<lparr>md_name = ''b'', md_version = ''0.1.0'', md_apiVersion = ''v3''\<rparr>
   \<and> fst (unmarshal_Metadata sample_env ''name: b'' (new_Metadata sample_env))
       = \<lparr>md_name = ''b'', md_version = [], md_apiVersion = []\<rparr>
   \<and> Metadata (fst (LoadFiles sample_env [\<lparr>Name = ''Chart.yaml'', Data = ''name: b''\<rparr>]))
       = Some \<lparr>md_name = ''b'', md_version = [], md_apiVersion = ''v3''\<rparr>"
  by code_simp

section \<open>The missing \<^verbatim>\<open>Chart.yaml\<close>\<close>

lemma first_pass_no_Chart_yaml:
  "\<forall>f\<in>set files. Name f \<noteq> ''Chart.yaml'' \<Longrightarrow>
   snd (first_pass env files c) = None \<and> Metadata (fst (first_pass env files c)) = Metadata c"
  by (induction files arbitrary: c) (simp_all add: Let_def)

lemma classify_parses:
  assumes "Name f = ''Chart.lock'' \<longrightarrow> snd (unmarshal_Lock env (Data f)) = None"
    and "Name f = ''values.yaml'' \<longrightarrow> (\<exists>v. LoadValues env (Data f) = Inr v)"
  shows "snd (snd (classify env f c subcharts)) = None"
  using assms unfolding classify_def Let_def
  by (auto split: prod.splits option.splits sum.splits)

lemma second_pass_parses:
  "\<forall>f\<in>set files. (Name f = ''Chart.lock'' \<longrightarrow> snd (unmarshal_Lock env (Data f)) = None)
       \<and> (Name f = ''values.yaml'' \<longrightarrow> (\<exists>v. LoadValues env (Data f) = Inr v)) \<Longrightarrow>
   snd (snd (second_pass env files c subcharts)) = None"
proof (induction files arbitrary: c subcharts)
  case Nil
  then show ?case by simp
next
  case (Cons f files)
  obtain c1 s1 e1 where cl: "classify env f c subcharts = (c1, s1, e1)"
    by (cases "classify env f c subcharts") auto
  from Cons.prems have "snd (snd (classify env f c subcharts)) = None"
    by (intro classify_parses) auto
  with cl have "e1 = None" by simp
  with cl Cons show ?case by simp
qed

section \<open>Documents of \<^verbatim>\<open>values.yaml\<close> that are not mappings\<close>

lemma unmarshal_map_not_a_map:
  "yaml_value env raw = Inr v \<Longrightarrow> v \<noteq> VNull \<Longrightarrow> \<forall>m. v \<noteq> VMap m \<Longrightarrow>
   unmarshal_map env raw = Inl (not_a_map env v)"
  by (cases v) (simp_all add: unmarshal_map_def)

lemma LoadValues_loop_first_error:
  "\<forall>p\<in>set ds. \<exists>m. unmarshal_map env p = Inr m \<Longrightarrow> unmarshal_map env raw = Inl e \<Longrightarrow>
   LoadValues_loop env acc (ds @ raw # post) stop = Inl (CannotUnmarshalYamlDocument e)"
  by (induction ds arbitrary: acc) auto

lemma LoadValues_loop_some_error:
  "raw \<in> set docs \<Longrightarrow> unmarshal_map env raw = Inl e \<Longrightarrow>
   \<exists>e'. LoadValues_loop env acc docs stop = Inl (CannotUnmarshalYamlDocument e')"
proof (induction docs arbitrary: acc)
  case Nil
  then show ?case by simp
next
  case (Cons d docs)
  show ?case
  proof (cases "unmarshal_map env d")
    case (Inl x)
    then show ?thesis by simp
  next
    case (Inr m)
    with Cons.prems have "raw \<in> set docs" by auto
    from Cons.IH [OF this Cons.prems(2)] Inr show ?thesis by simp
  qed
qed

lemma second_pass_append:
  "second_pass env (fs @ rest) c subcharts =
     (case second_pass env fs c subcharts of
        (c1, s1, None) \<Rightarrow> second_pass env rest c1 s1
      | (c1, s1, Some e) \<Rightarrow> (c1, s1, Some e))"
proof (induction fs arbitrary: c subcharts)
  case Nil
  then show ?case by simp
next
  case (Cons f fs)
  obtain c1 s1 e1 where cl: "classify env f c subcharts = (c1, s1, e1)"
    by (cases "classify env f c subcharts") auto
  show ?case by (cases e1) (simp_all add: cl Cons.IH)
qed

lemma classify_values_error:
  "Name f = ''values.yaml'' \<Longrightarrow> LoadValues env (Data f) = Inl y \<Longrightarrow>
   classify env f c subcharts = (c, subcharts, Some (CannotLoadValuesYaml y))"
  by (simp add: classify_def)

lemma second_pass_values_parse:
  "second_pass env files c subcharts = (c', subcharts', None) \<Longrightarrow>
   f \<in> set files \<Longrightarrow> Name f = ''values.yaml'' \<Longrightarrow> \<exists>v. LoadValues env (Data f) = Inr v"
proof (induction files arbitrary: c subcharts)
  case Nil
  then show ?case by simp
next
  case (Cons g files)
  obtain c1 s1 e1 where cl: "classify env g c subcharts = (c1, s1, e1)"
    by (cases "classify env g c subcharts") auto
  with Cons.prems(1) have e1: "e1 = None" by (cases e1) auto
  with Cons.prems(1) cl have sp: "second_pass env files c1 s1 = (c', subcharts', None)" by simp
  show ?case
  proof (cases "f = g")
    case True
    show ?thesis
    proof (cases "LoadValues env (Data f)")
      case (Inl y)
      from classify_values_error [OF Cons.prems(3) Inl, of c subcharts] cl e1 True
      show ?thesis by simp
    next
      case (Inr v)
      then show ?thesis by blast
    qed
  next
    case False
    with Cons.prems(2) have "f \<in> set files" by simp
    from Cons.IH [OF sp this Cons.prems(3)] show ?thesis .
  qed
qed

text \<open>
  C10. A document of \<^verbatim>\<open>values.yaml\<close> that is YAML but neither a mapping nor null, a
  sequence for instance, is an error of \<^verbatim>\<open>LoadValues\<close>: the document is not skipped and
  not coerced, and the error is that of the first document that does not decode. An
  input with such a \<^verbatim>\<open>values.yaml\<close> always fails, and when the second loop reaches the
  entry the error is the values error that wraps the one of \<^verbatim>\<open>LoadValues\<close>. A null
  document is accepted as a map with no entry, which leaves the values as they are.
\<close>

theorem non_mapping_document_is_an_error:
  assumes "yaml_reader env data = (docs, stop)" and "raw \<in> set docs"
    and "yaml_value env raw = Inr v" and "v \<noteq> VNull" and "\<forall>m. v \<noteq> VMap m"
  shows "(\<exists>e. LoadValues env data = Inl (CannotUnmarshalYamlDocument e))
       \<and> ((\<forall>p\<in>set (takeWhile (\<lambda>d. d \<noteq> raw) docs). \<exists>m. unmarshal_map env p = Inr m)
            \<longrightarrow> LoadValues env data = Inl (CannotUnmarshalYamlDocument (not_a_map env v)))
       \<and> (\<forall>files f. f \<in> set files \<and> Name f = ''values.yaml'' \<and> Data f = data
            \<longrightarrow> snd (LoadFiles env files) \<noteq> None)
       \<and> (\<forall>pre f post c0 c1 s1.
             Name f = ''values.yaml'' \<and> Data f = data
             \<and> first_pass env (pre @ f # post) new_Chart = (c0, None)
             \<and> second_pass env pre c0 [] = (c1, s1, None)
            \<longrightarrow> (\<exists>e. LoadFiles env (pre @ f # post)
                        = (c1, Some (CannotLoadValuesYaml (CannotUnmarshalYamlDocument e)))))
       \<and> (\<forall>doc acc rest fin. yaml_value env doc = Inr VNull
            \<longrightarrow> unmarshal_map env doc = Inr []
                \<and> LoadValues_loop env acc (doc # rest) fin
                    = LoadValues_loop env acc rest fin)"
proof -
  note bad = unmarshal_map_not_a_map [OF assms(3,4,5)]
  from LoadValues_loop_some_error [OF assms(2) bad]
  obtain e where e: "LoadValues env data = Inl (CannotUnmarshalYamlDocument e)"
    by (auto simp: LoadValues_def assms(1))
  have first: "LoadValues env data = Inl (CannotUnmarshalYamlDocument (not_a_map env v))"
    if "\<forall>p\<in>set (takeWhile (\<lambda>d. d \<noteq> raw) docs). \<exists>m. unmarshal_map env p = Inr m"
  proof -
    from assms(2) have "docs = takeWhile (\<lambda>d. d \<noteq> raw) docs @ raw # tl (dropWhile (\<lambda>d. d \<noteq> raw) docs)"
      by (metis (mono_tags, lifting) dropWhile_eq_Nil_conv hd_dropWhile list.collapse
            takeWhile_dropWhile_id)
    then obtain post where d: "docs = takeWhile (\<lambda>d. d \<noteq> raw) docs @ raw # post" by blast
    have "LoadValues_loop env [] (takeWhile (\<lambda>d. d \<noteq> raw) docs @ raw # post) stop
            = Inl (CannotUnmarshalYamlDocument (not_a_map env v))"
      using that bad by (rule LoadValues_loop_first_error)
    with d show ?thesis by (simp add: LoadValues_def assms(1))
  qed
  have fails: "snd (LoadFiles env files) \<noteq> None"
    if "f \<in> set files" "Name f = ''values.yaml''" "Data f = data" for files f
  proof -
    obtain c r where r: "LoadFiles env files = (c, r)" by (cases "LoadFiles env files") auto
    have no: "\<not> (\<exists>v. LoadValues env (Data f) = Inr v)" using e that(3) by simp
    from r have "r \<noteq> None"
    proof (cases rule: LoadFiles_cases)
      case (missing c0 s)
      then show ?thesis by simp
    next
      case (invalid c0 s x)
      then show ?thesis by simp
    next
      case (subcharts c0 c1 s)
      from second_pass_values_parse [OF subcharts(2) that(1,2)] no show ?thesis by simp
    qed simp_all
    with r show ?thesis by simp
  qed
  have reached: "LoadFiles env (fs @ f # post)
                        = (c1, Some (CannotLoadValuesYaml (CannotUnmarshalYamlDocument e)))"
    if "Name f = ''values.yaml''" "Data f = data"
       "first_pass env (fs @ f # post) new_Chart = (c0, None)"
       "second_pass env fs c0 [] = (c1, s1, None)" for fs f post c0 c1 s1
  proof -
    from e that(2) have "LoadValues env (Data f) = Inl (CannotUnmarshalYamlDocument e)" by simp
    from classify_values_error [OF that(1) this, of c1 s1] that(4)
    have "second_pass env (fs @ f # post) c0 []
            = (c1, s1, Some (CannotLoadValuesYaml (CannotUnmarshalYamlDocument e)))"
      by (simp add: second_pass_append)
    with that(3) show ?thesis by (simp add: LoadFiles.simps)
  qed
  have null: "unmarshal_map env n = Inr []
                \<and> LoadValues_loop env acc (n # rest) fin = LoadValues_loop env acc rest fin"
    if "yaml_value env n = Inr VNull" for n acc rest fin
    using that by (simp add: unmarshal_map_def)
  from e first fails reached null show ?thesis by blast
qed

theorem non_mapping_document_is_an_error_witness:
  "yaml_reader sample_env (''k: v'' @ nl @ ''---'' @ nl @ ''- a'')
     = ([''k: v'' @ nl, ''- a'' @ nl], None)
   \<and> yaml_value sample_env (''- a'' @ nl) = Inr (VSeq [VStr ''a''])
   \<and> unmarshal_map sample_env (''k: v'' @ nl) = Inr [(''k'', VStr ''v'')]
   \<and> LoadValues sample_env (''k: v'' @ nl @ ''---'' @ nl @ ''- a'')
       = Inl (CannotUnmarshalYamlDocument (not_a_map sample_env (VSeq [VStr ''a''])))
   \<and> snd (LoadFiles sample_env
            [\<lparr>Name = ''values.yaml'', Data = ''k: v'' @ nl @ ''---'' @ nl @ ''- a''\<rparr>,
             \<lparr>Name = ''Chart.yaml'', Data = ''name: a'' @ nl @ ''version: 0.1.0''\<rparr>])
       \<noteq> None
   \<and> yaml_value sample_env [] = Inr VNull
   \<and> LoadValues sample_env (''k: v'' @ nl @ ''---'' @ nl @ ''---'' @ nl) = Inr [(''k'', VStr ''v'')]"
proof -
  let ?data = "''k: v'' @ nl @ ''---'' @ nl @ ''- a''"
  have r: "yaml_reader sample_env ?data = ([''k: v'' @ nl, ''- a'' @ nl], None)"
    by code_simp
  have m: "''- a'' @ nl \<in> set [''k: v'' @ nl, ''- a'' @ nl]" by simp
  have v: "yaml_value sample_env (''- a'' @ nl) = Inr (VSeq [VStr ''a''])" by code_simp
  have k: "unmarshal_map sample_env (''k: v'' @ nl) = Inr [(''k'', VStr ''v'')]" by code_simp
  have n: "yaml_value sample_env [] = Inr VNull" by code_simp
  have e: "LoadValues sample_env (''k: v'' @ nl @ ''---'' @ nl @ ''---'' @ nl) = Inr [(''k'', VStr ''v'')]"
    by code_simp
  have tw: "takeWhile (\<lambda>d. d \<noteq> ''- a'' @ nl) [''k: v'' @ nl, ''- a'' @ nl] = [''k: v'' @ nl]"
    by (simp add: nl_def)
  have nn: "VSeq [VStr ''a''] \<noteq> VNull" by simp
  have nm: "\<forall>m. VSeq [VStr ''a''] \<noteq> VMap m" by simp
  note t = non_mapping_document_is_an_error [OF r m v nn nm]
  have before: "\<forall>p\<in>set (takeWhile (\<lambda>d. d \<noteq> ''- a'' @ nl) [''k: v'' @ nl, ''- a'' @ nl]).
                  \<exists>m. unmarshal_map sample_env p = Inr m"
    unfolding tw using k by simp
  have "LoadValues sample_env ?data
       = Inl (CannotUnmarshalYamlDocument (not_a_map sample_env (VSeq [VStr ''a''])))"
    using t [THEN conjunct2, THEN conjunct1] before by (rule mp)
  moreover have "snd (LoadFiles sample_env
            [\<lparr>Name = ''values.yaml'', Data = ?data\<rparr>,
             \<lparr>Name = ''Chart.yaml'', Data = ''name: a'' @ nl @ ''version: 0.1.0''\<rparr>]) \<noteq> None"
    by (rule t [THEN conjunct2, THEN conjunct2, THEN conjunct1, rule_format,
                of "\<lparr>Name = ''values.yaml'', Data = ?data\<rparr>"]) simp
  ultimately show ?thesis using r v k n e by simp
qed

section \<open>The error of an input without \<^verbatim>\<open>Chart.yaml\<close>\<close>

lemma classify_lock_error:
  "Name f = ''Chart.lock'' \<Longrightarrow> unmarshal_Lock env (Data f) = (l, Some x) \<Longrightarrow>
   classify env f c subcharts = (set_Lock l c, subcharts, Some (CannotLoadChartLock x))"
  by (simp add: classify_def)

lemma second_pass_first_failure:
  assumes "\<forall>g\<in>set before.
             (Name g = ''Chart.lock'' \<longrightarrow> snd (unmarshal_Lock env (Data g)) = None)
             \<and> (Name g = ''values.yaml'' \<longrightarrow> (\<exists>v. LoadValues env (Data g) = Inr v))"
    and "classify env f (fst (second_pass env before c subcharts))
           (fst (snd (second_pass env before c subcharts))) = (c', s', Some x)"
  shows "second_pass env (before @ f # post) c subcharts = (c', s', Some x)"
proof -
  obtain c1 s1 e1 where sp: "second_pass env before c subcharts = (c1, s1, e1)"
    by (cases "second_pass env before c subcharts") auto
  from second_pass_parses [OF assms(1), of c subcharts] sp have "e1 = None" by simp
  with sp assms(2) show ?thesis by (simp add: second_pass_append)
qed

lemma LoadFiles_second_pass_failure:
  "first_pass env files new_Chart = (c0, None) \<Longrightarrow>
   second_pass env files c0 [] = (c', s', Some x) \<Longrightarrow> LoadFiles env files = (c', Some x)"
  by (simp add: LoadFiles.simps)

text \<open>
  C4, as the code has it. An input with no \<^verbatim>\<open>Chart.yaml\<close> entry always fails.
  \<^verbatim>\<open>LoadFiles\<close> tests \<^verbatim>\<open>c.Metadata == nil\<close> after its second loop and before the
  validation. So the error is the missing-metadata error when every \<^verbatim>\<open>Chart.lock\<close> and
  \<^verbatim>\<open>values.yaml\<close> entry parses; and when one of them does not parse, the error is the
  parse error of the first such entry of the input, and not the missing-metadata error.
\<close>

theorem no_Chart_yaml_fails:
  assumes "\<forall>f\<in>set files. Name f \<noteq> ''Chart.yaml''"
  shows "snd (LoadFiles env files) \<noteq> None
       \<and> ((\<forall>f\<in>set files.
              (Name f = ''Chart.lock'' \<longrightarrow> snd (unmarshal_Lock env (Data f)) = None)
              \<and> (Name f = ''values.yaml'' \<longrightarrow> (\<exists>v. LoadValues env (Data f) = Inr v)))
            \<longrightarrow> snd (LoadFiles env files) = Some ChartYamlMissing)
       \<and> (\<forall>before f post l x.
             files = before @ f # post
             \<and> (\<forall>g\<in>set before.
                   (Name g = ''Chart.lock'' \<longrightarrow> snd (unmarshal_Lock env (Data g)) = None)
                   \<and> (Name g = ''values.yaml'' \<longrightarrow> (\<exists>v. LoadValues env (Data g) = Inr v)))
             \<and> Name f = ''Chart.lock'' \<and> unmarshal_Lock env (Data f) = (l, Some x)
            \<longrightarrow> snd (LoadFiles env files) = Some (CannotLoadChartLock x))
       \<and> (\<forall>before f post y.
             files = before @ f # post
             \<and> (\<forall>g\<in>set before.
                   (Name g = ''Chart.lock'' \<longrightarrow> snd (unmarshal_Lock env (Data g)) = None)
                   \<and> (Name g = ''values.yaml'' \<longrightarrow> (\<exists>v. LoadValues env (Data g) = Inr v)))
             \<and> Name f = ''values.yaml'' \<and> LoadValues env (Data f) = Inl y
            \<longrightarrow> snd (LoadFiles env files) = Some (CannotLoadValuesYaml y))
       \<and> (snd (LoadFiles env files) = Some ChartYamlMissing
            \<or> (\<exists>x. snd (LoadFiles env files) = Some (CannotLoadChartLock x))
            \<or> (\<exists>x. snd (LoadFiles env files) = Some (CannotLoadValuesYaml x)))"
proof -
  obtain c e where r: "LoadFiles env files = (c, e)" by (cases "LoadFiles env files") auto
  note fp = first_pass_no_Chart_yaml [OF assms, of env new_Chart]
  obtain c0 where f0: "first_pass env files new_Chart = (c0, None)"
    using fp by (cases "first_pass env files new_Chart") auto
  have kinds: "e = Some ChartYamlMissing \<or> (\<exists>x. e = Some (CannotLoadChartLock x))
                 \<or> (\<exists>x. e = Some (CannotLoadValuesYaml x))"
    using r
  proof (cases rule: LoadFiles_cases)
    case (first x)
    with fp show ?thesis by simp
  next
    case (second c0 s x)
    from second_pass_error [OF second(2)] second(3) show ?thesis by auto
  next
    case (missing c0 s)
    then show ?thesis by simp
  next
    case (invalid c0 s x)
    from second_pass_kept [OF invalid(2)] invalid(1,3) fp show ?thesis by simp
  next
    case (subcharts c0 c1 s)
    from second_pass_kept [OF subcharts(2)] subcharts(1,3) fp show ?thesis by simp
  qed
  have parses: "e = Some ChartYamlMissing"
    if p: "\<forall>f\<in>set files.
              (Name f = ''Chart.lock'' \<longrightarrow> snd (unmarshal_Lock env (Data f)) = None)
              \<and> (Name f = ''values.yaml'' \<longrightarrow> (\<exists>v. LoadValues env (Data f) = Inr v))"
    using r
  proof (cases rule: LoadFiles_cases)
    case (first x)
    with fp show ?thesis by simp
  next
    case (second c0 s x)
    with second_pass_parses [OF p, of c0 "[]"] show ?thesis by simp
  next
    case (missing c0 s)
    then show ?thesis by simp
  next
    case (invalid c0 s x)
    from second_pass_kept [OF invalid(2)] invalid(1,3) fp show ?thesis by simp
  next
    case (subcharts c0 c1 s)
    from second_pass_kept [OF subcharts(2)] subcharts(1,3) fp show ?thesis by simp
  qed
  have lock: "e = Some (CannotLoadChartLock x)"
    if d: "files = before @ f # post"
      and p: "\<forall>g\<in>set before.
                   (Name g = ''Chart.lock'' \<longrightarrow> snd (unmarshal_Lock env (Data g)) = None)
                   \<and> (Name g = ''values.yaml'' \<longrightarrow> (\<exists>v. LoadValues env (Data g) = Inr v))"
      and n: "Name f = ''Chart.lock''" and u: "unmarshal_Lock env (Data f) = (l, Some x)"
    for before f post l x
  proof -
    note sp = second_pass_first_failure [OF p classify_lock_error [OF n u],
           where c = c0 and subcharts = "[]" and post = post, folded d]
    from LoadFiles_second_pass_failure [OF f0 sp] r show ?thesis by simp
  qed
  have vals: "e = Some (CannotLoadValuesYaml y)"
    if d: "files = before @ f # post"
      and p: "\<forall>g\<in>set before.
                   (Name g = ''Chart.lock'' \<longrightarrow> snd (unmarshal_Lock env (Data g)) = None)
                   \<and> (Name g = ''values.yaml'' \<longrightarrow> (\<exists>v. LoadValues env (Data g) = Inr v))"
      and n: "Name f = ''values.yaml''" and u: "LoadValues env (Data f) = Inl y"
    for before f post y
  proof -
    note sp = second_pass_first_failure [OF p classify_values_error [OF n u],
           where c = c0 and subcharts = "[]" and post = post, folded d]
    from LoadFiles_second_pass_failure [OF f0 sp] r show ?thesis by simp
  qed
  from kinds parses lock vals show ?thesis unfolding r snd_conv by blast
qed

theorem no_Chart_yaml_fails_witness:
  "snd (LoadFiles sample_env
          [\<lparr>Name = ''values.yaml'', Data = ''k: v''\<rparr>,
           \<lparr>Name = ''Chart.lock'', Data = ''digest: d''\<rparr>,
           \<lparr>Name = ''templates/t.yaml'', Data = ''t''\<rparr>]) = Some ChartYamlMissing
   \<and> unmarshal_Lock sample_env ''{'' = (Some [], Some ''yaml: could not find expected key'')
   \<and> snd (LoadFiles sample_env
          [\<lparr>Name = ''values.yaml'', Data = ''k: v''\<rparr>,
           \<lparr>Name = ''Chart.lock'', Data = ''{''\<rparr>,
           \<lparr>Name = ''values.yaml'', Data = ''- a''\<rparr>])
       = Some (CannotLoadChartLock ''yaml: could not find expected key'')"
proof -
  let ?files = "[\<lparr>Name = ''values.yaml'', Data = ''k: v''\<rparr>,
           \<lparr>Name = ''Chart.lock'', Data = ''digest: d''\<rparr>,
           \<lparr>Name = ''templates/t.yaml'', Data = ''t''\<rparr>]"
  let ?bad = "[\<lparr>Name = ''values.yaml'', Data = ''k: v''\<rparr>,
           \<lparr>Name = ''Chart.lock'', Data = ''{''\<rparr>,
           \<lparr>Name = ''values.yaml'', Data = ''- a''\<rparr>]"
  have none: "\<forall>f\<in>set ?files. Name f \<noteq> ''Chart.yaml''" by simp
  have none': "\<forall>f\<in>set ?bad. Name f \<noteq> ''Chart.yaml''" by simp
  have lock: "snd (unmarshal_Lock sample_env ''digest: d'') = None" by code_simp
  have vals: "LoadValues sample_env ''k: v'' = Inr [(''k'', VStr ''v'')]" by code_simp
  have bad: "unmarshal_Lock sample_env ''{''
               = (Some [], Some ''yaml: could not find expected key'')" by code_simp
  have all: "\<forall>f\<in>set ?files.
              (Name f = ''Chart.lock'' \<longrightarrow> snd (unmarshal_Lock sample_env (Data f)) = None)
              \<and> (Name f = ''values.yaml'' \<longrightarrow> (\<exists>v. LoadValues sample_env (Data f) = Inr v))"
    using lock vals by simp
  have one: "snd (LoadFiles sample_env ?files) = Some ChartYamlMissing"
    using no_Chart_yaml_fails [OF none, of sample_env] all by blast
  have "?bad = [\<lparr>Name = ''values.yaml'', Data = ''k: v''\<rparr>]
                 @ \<lparr>Name = ''Chart.lock'', Data = ''{''\<rparr>
                 # [\<lparr>Name = ''values.yaml'', Data = ''- a''\<rparr>]
        \<and> (\<forall>g\<in>set [\<lparr>Name = ''values.yaml'', Data = ''k: v''\<rparr>].
              (Name g = ''Chart.lock'' \<longrightarrow> snd (unmarshal_Lock sample_env (Data g)) = None)
              \<and> (Name g = ''values.yaml'' \<longrightarrow> (\<exists>v. LoadValues sample_env (Data g) = Inr v)))
        \<and> Name \<lparr>Name = ''Chart.lock'', Data = ''{''\<rparr> = ''Chart.lock''
        \<and> unmarshal_Lock sample_env (Data \<lparr>Name = ''Chart.lock'', Data = ''{''\<rparr>)
            = (Some [], Some ''yaml: could not find expected key'')"
    using vals bad by simp
  then have two: "snd (LoadFiles sample_env ?bad)
       = Some (CannotLoadChartLock ''yaml: could not find expected key'')"
    using no_Chart_yaml_fails [OF none', of sample_env] by blast
  from one bad two show ?thesis by simp
qed

text \<open>
  C4 as the specification states it fails: the input below has no \<^verbatim>\<open>Chart.yaml\<close> and a
  \<^verbatim>\<open>Chart.lock\<close> that is not YAML, and the error is that of the lock, which the second
  loop returns before the test for the missing metadata is reached.
\<close>

theorem metadata_missing_first_counterexample:
  "filter (\<lambda>f. Name f = ''Chart.yaml'')
     [\<lparr>Name = ''README.md'', Data = ''r''\<rparr>, \<lparr>Name = ''Chart.lock'', Data = ''{''\<rparr>] = []
   \<and> LoadFiles sample_env
       [\<lparr>Name = ''README.md'', Data = ''r''\<rparr>, \<lparr>Name = ''Chart.lock'', Data = ''{''\<rparr>]
     = (Chart [File ''README.md'' ''r'', File ''Chart.lock'' ''{''] None (Some []) None [] []
          [File ''README.md'' ''r''] [],
        Some (CannotLoadChartLock ''yaml: could not find expected key''))"
  by code_simp

section \<open>The two loops in terms of the input\<close>

text \<open>
  What the loops of \<^verbatim>\<open>LoadFiles\<close> leave in the chart, said of the input and not of the
  loops. \<open>metadata_of\<close> is the record after the \<^verbatim>\<open>Chart.yaml\<close> entries have been decoded
  one after the other. \<open>is_plain\<close> are the names that go to \<^verbatim>\<open>Files\<close>: no reserved
  name, not under \<^verbatim>\<open>templates/\<close>, and under \<^verbatim>\<open>charts/\<close> only with the extension
  \<^verbatim>\<open>.prov\<close>. \<open>last_named\<close> is the last entry with a name. \<open>classified env files c\<close> is the
  chart \<^verbatim>\<open>c\<close> after files that all parse have been classified: the lock, the values and
  the schema are those of the last entry of their name, templates and plain files are
  appended in the order of the input, and the rest of the chart is as it was.
\<close>

definition metadata_of :: "('m, 'l, 'e) env \<Rightarrow> BufferedFile list \<Rightarrow> 'm option" where
  "metadata_of env files =
     foldl (\<lambda>md data.
              let m = fst (unmarshal_Metadata env data
                             (case md of None \<Rightarrow> new_Metadata env | Some m \<Rightarrow> m))
              in Some (if APIVersion env m = [] then set_APIVersion env (APIVersionV3 env) m else m))
       None (map Data (filter (\<lambda>f. Name f = ''Chart.yaml'') files))"

definition is_plain :: "string \<Rightarrow> bool" where
  "is_plain name =
     (name \<noteq> ''Chart.yaml'' \<and> name \<noteq> ''Chart.lock'' \<and> name \<noteq> ''values.yaml'' \<and>
      name \<noteq> ''values.schema.json'' \<and> \<not> HasPrefix name ''templates/'' \<and>
      (\<not> HasPrefix name ''charts/'' \<or> Ext name = ''.prov''))"

definition last_named :: "string \<Rightarrow> BufferedFile list \<Rightarrow> BufferedFile option" where
  "last_named n files =
     (case filter (\<lambda>f. Name f = n) files of [] \<Rightarrow> None | g # gs \<Rightarrow> Some (last (g # gs)))"

definition classified ::
  "('m, 'l, 'e) env \<Rightarrow> BufferedFile list \<Rightarrow> ('m, 'l) Chart \<Rightarrow> ('m, 'l) Chart" where
  "classified env files c =
     Chart (Raw c) (Metadata c)
       (case last_named ''Chart.lock'' files of
          None \<Rightarrow> Lock c
        | Some f \<Rightarrow> fst (unmarshal_Lock env (Data f)))
       (case last_named ''values.yaml'' files of
          None \<Rightarrow> Values c
        | Some f \<Rightarrow> (case LoadValues env (Data f) of Inr v \<Rightarrow> Some v | Inl y \<Rightarrow> None))
       (case last_named ''values.schema.json'' files of
          None \<Rightarrow> Schema c
        | Some f \<Rightarrow> Data f)
       (Templates c @ map (\<lambda>f. File (Name f) (Data f))
                        (filter (\<lambda>f. HasPrefix (Name f) ''templates/'') files))
       (Files c @ map (\<lambda>f. File (Name f) (Data f)) (filter (\<lambda>f. is_plain (Name f)) files))
       (dependencies c)"

lemma last_named_Nil [simp]: "last_named n [] = None"
  by (simp add: last_named_def)

lemma last_named_Cons:
  "last_named n (f # files) =
     (case last_named n files of
        None \<Rightarrow> (if Name f = n then Some f else None)
      | Some g \<Rightarrow> Some g)"
  by (auto simp: last_named_def split: list.splits)

lemma classified_Nil [simp]: "classified env [] c = c"
  by (simp add: classified_def)

lemma not_templates [simp]:
  "\<not> HasPrefix ''Chart.yaml'' ''templates/''" "\<not> HasPrefix ''Chart.lock'' ''templates/''"
  "\<not> HasPrefix ''values.yaml'' ''templates/''" "\<not> HasPrefix ''values.schema.json'' ''templates/''"
  by (simp_all add: HasPrefix_def)

lemma classified_Cons:
  "classified env (f # files) c = classified env files (classified env [f] c)"
  unfolding classified_def
  by (simp add: last_named_Cons split: option.splits)

lemma classify_classified:
  "classify env f c s = (c', s', None) \<Longrightarrow> c' = classified env [f] c"
  unfolding classify_def classified_def Let_def
  by (auto simp: last_named_Cons is_plain_def set_Lock_def set_Values_def set_Schema_def
        set_Templates_def set_Files_def
      split: if_splits prod.splits option.splits sum.splits)

lemma second_pass_classified:
  "second_pass env files c s = (c', s', None) \<Longrightarrow> c' = classified env files c"
proof (induction files arbitrary: c s)
  case Nil
  then show ?case by simp
next
  case (Cons f files)
  obtain c1 s1 e1 where cl: "classify env f c s = (c1, s1, e1)"
    by (cases "classify env f c s") auto
  with Cons.prems have e1: "e1 = None" by (cases e1) auto
  with Cons.prems cl have "second_pass env files c1 s1 = (c', s', None)" by simp
  from Cons.IH [OF this] classify_classified [OF cl [unfolded e1]]
  show ?case by (simp add: classified_Cons [of env f files c])
qed

section \<open>The groups of subchart files\<close>

text \<open>
  The key under which the second loop buffers a file of \<^verbatim>\<open>charts/\<close>, the buffered copy,
  and the files buffered under one key, in the order of the input.
\<close>

definition subchart_key :: "string \<Rightarrow> string" where
  "subchart_key name = hd (SplitN2 (TrimPrefix name ''charts/'') CHR ''/'')"

definition buffered :: "BufferedFile \<Rightarrow> BufferedFile" where
  "buffered f = \<lparr>Name = TrimPrefix (Name f) ''charts/'', Data = Data f\<rparr>"

definition members :: "string \<Rightarrow> BufferedFile list \<Rightarrow> BufferedFile list" where
  "members n files =
     map buffered (filter (\<lambda>f. is_member (Name f) \<and> subchart_key (Name f) = n) files)"

lemma map_of_append_subchart:
  "map_of (append_subchart k bf s) n =
     (if n = k then Some ((case map_of s k of None \<Rightarrow> [] | Some fs \<Rightarrow> fs) @ [bf])
      else map_of s n)"
  by (simp add: append_subchart_def update_conv')

lemma classify_map_of:
  "classify env f c s = (c', s', e) \<Longrightarrow>
   map_of s' n =
     (if is_member (Name f) \<and> subchart_key (Name f) = n
      then Some ((case map_of s n of None \<Rightarrow> [] | Some fs \<Rightarrow> fs) @ [buffered f])
      else map_of s n)"
  using classify_subcharts [of env f c s]
  by (auto simp: map_of_append_subchart subchart_key_def buffered_def)

lemma second_pass_map_of:
  "second_pass env files c s = (c', s', None) \<Longrightarrow>
   map_of s' n =
     (if members n files = [] then map_of s n
      else Some ((case map_of s n of None \<Rightarrow> [] | Some fs \<Rightarrow> fs) @ members n files))"
proof (induction files arbitrary: c s)
  case Nil
  then show ?case by (simp add: members_def)
next
  case (Cons f files)
  obtain c1 s1 e1 where cl: "classify env f c s = (c1, s1, e1)"
    by (cases "classify env f c s") auto
  with Cons.prems have e1: "e1 = None" by (cases e1) auto
  with Cons.prems cl have "second_pass env files c1 s1 = (c', s', None)" by simp
  note ih = Cons.IH [OF this]
  from classify_map_of [OF cl, of n] ih show ?case
    by (auto simp: members_def)
qed

lemma load_subcharts_Cons:
  "load_subcharts env c (g # gs) =
     (case load_subcharts env c [g] of
        (c', None) \<Rightarrow> load_subcharts env c' gs
      | (c', Some e) \<Rightarrow> (c', Some e))"
proof -
  obtain n files where g: "g = (n, files)" by (cases g)
  consider (skip) "IndexAny n ''_.'' = 0"
    | (tgz) "IndexAny n ''_.'' \<noteq> 0" "Ext n = ''.tgz''"
    | (dir) "IndexAny n ''_.'' \<noteq> 0" "Ext n \<noteq> ''.tgz''"
    by blast
  then show ?thesis
  proof cases
    case skip
    then show ?thesis by (simp add: g)
  next
    case tgz
    show ?thesis
    proof (cases files)
      case Nil
      with tgz show ?thesis by (simp add: g)
    next
      case (Cons b bs)
      with tgz show ?thesis by (cases "LoadArchive env (Data b)") (simp_all add: g)
    qed
  next
    case dir
    obtain sc e where l: "LoadFiles env (trim_members files) = (sc, e)"
      by (cases "LoadFiles env (trim_members files)") auto
    with dir show ?thesis by (cases e) (simp_all add: g)
  qed
qed

lemma load_subcharts_append:
  "load_subcharts env c (gs @ rest) =
     (case load_subcharts env c gs of
        (c', None) \<Rightarrow> load_subcharts env c' rest
      | (c', Some e) \<Rightarrow> (c', Some e))"
proof (induction gs arbitrary: c)
  case Nil
  then show ?case by simp
next
  case (Cons g gs)
  obtain c1 e1 where h: "load_subcharts env c [g] = (c1, e1)"
    by (cases "load_subcharts env c [g]") auto
  show ?case
    by (cases e1)
       (simp_all only: append_Cons load_subcharts_Cons [of env c g "gs @ rest"]
          load_subcharts_Cons [of env c g gs] h Cons.IH prod.case option.case)
qed

text \<open>
  The map \<^verbatim>\<open>subcharts\<close> after the second loop: every file that \<open>is_member\<close> is buffered
  under its key, in the order of the input.
\<close>

definition subcharts_of :: "BufferedFile list \<Rightarrow> subcharts" where
  "subcharts_of files =
     foldl (\<lambda>s f. if is_member (Name f)
                   then append_subchart (subchart_key (Name f)) (buffered f) s else s)
       [] files"

lemma second_pass_subcharts:
  "second_pass env files c s = (c', s', None) \<Longrightarrow>
   s' = foldl (\<lambda>s f. if is_member (Name f)
                       then append_subchart (subchart_key (Name f)) (buffered f) s else s)
          s files"
proof (induction files arbitrary: c s)
  case Nil
  then show ?case by simp
next
  case (Cons f files)
  obtain c1 s1 e1 where cl: "classify env f c s = (c1, s1, e1)"
    by (cases "classify env f c s") auto
  with Cons.prems have e1: "e1 = None" by (cases e1) auto
  with Cons.prems cl have "second_pass env files c1 s1 = (c', s', None)" by simp
  from Cons.IH [OF this] classify_subcharts [of env f c s] cl
  show ?case by (simp add: subchart_key_def buffered_def)
qed

lemma first_pass_success_chart:
  assumes "first_pass env files new_Chart = (c, None)"
  shows "c = Chart (map (\<lambda>f. File (Name f) (Data f)) files) (metadata_of env files)
               None None [] [] [] []"
proof -
  from first_pass_Raw [OF assms] have "Raw c = map (\<lambda>f. File (Name f) (Data f)) files" by auto
  moreover from first_pass_Metadata [OF assms] have "Metadata c = metadata_of env files"
    by (simp add: metadata_of_def)
  moreover note first_pass_other [OF assms]
  ultimately show ?thesis by (cases c) simp
qed

lemma first_pass_append:
  "first_pass env (fs @ rest) c =
     (case first_pass env fs c of
        (c1, None) \<Rightarrow> first_pass env rest c1
      | (c1, Some e) \<Rightarrow> (c1, Some e))"
proof (induction fs arbitrary: c)
  case Nil
  then show ?case by simp
next
  case (Cons f fs)
  show ?case
    by (simp add: Let_def Cons.IH split: prod.splits option.splits)
qed

lemma first_pass_failure:
  "first_pass env files c = (c', Some e) \<Longrightarrow>
   \<exists>before f post c0 m x.
      files = before @ f # post \<and> Name f = ''Chart.yaml''
      \<and> first_pass env before c = (c0, None)
      \<and> unmarshal_Metadata env (Data f)
            (case Metadata c0 of None \<Rightarrow> new_Metadata env | Some m \<Rightarrow> m) = (m, Some x)
      \<and> e = CannotLoadChartYaml x
      \<and> c' = set_Metadata (Some m) (set_Raw (Raw c0 @ [File (Name f) (Data f)]) c0)"
proof (induction files arbitrary: c)
  case Nil
  then show ?case by simp
next
  case (Cons f files)
  define c1 where "c1 = set_Raw (Raw c @ [File (Name f) (Data f)]) c"
  obtain m err where um: "unmarshal_Metadata env (Data f)
        (case Metadata c of None \<Rightarrow> new_Metadata env | Some m \<Rightarrow> m) = (m, err)"
    by (cases "unmarshal_Metadata env (Data f)
        (case Metadata c of None \<Rightarrow> new_Metadata env | Some m \<Rightarrow> m)") auto
  show ?case
  proof (cases "Name f = ''Chart.yaml'' \<and> err \<noteq> None")
    case True
    then obtain x where x: "err = Some x" by auto
    with Cons.prems True um have "e = CannotLoadChartYaml x" "c' = set_Metadata (Some m) c1"
      by (simp_all add: c1_def Let_def)
    with True um x show ?thesis
      by (rule_tac x = "[]" in exI, rule_tac x = f in exI, rule_tac x = files in exI,
          rule_tac x = c in exI, rule_tac x = m in exI, rule_tac x = x in exI)
         (simp add: c1_def)
  next
    case False
    obtain c2 where step: "first_pass env [f] c = (c2, None)"
      and rest: "first_pass env files c2 = (c', Some e)"
    proof (cases "Name f = ''Chart.yaml''")
      case True
      with False have err: "err = None" by simp
      let ?c2 = "set_Metadata (Some (if APIVersion env m = []
                    then set_APIVersion env (APIVersionV3 env) m else m)) c1"
      from True um err have "first_pass env [f] c = (?c2, None)"
        by (simp add: c1_def Let_def)
      moreover from True um err Cons.prems have "first_pass env files ?c2 = (c', Some e)"
        by (simp add: c1_def Let_def)
      ultimately show ?thesis by (rule that)
    next
      case False
      then have "first_pass env [f] c = (c1, None)" by (simp add: c1_def Let_def)
      moreover from False Cons.prems have "first_pass env files c1 = (c', Some e)"
        by (simp add: c1_def Let_def)
      ultimately show ?thesis by (rule that)
    qed
    from Cons.IH [OF rest] obtain before g post c0 m' x where
      ih: "files = before @ g # post" "Name g = ''Chart.yaml''"
        "first_pass env before c2 = (c0, None)"
        "unmarshal_Metadata env (Data g)
            (case Metadata c0 of None \<Rightarrow> new_Metadata env | Some m \<Rightarrow> m) = (m', Some x)"
        "e = CannotLoadChartYaml x"
        "c' = set_Metadata (Some m') (set_Raw (Raw c0 @ [File (Name g) (Data g)]) c0)"
      by blast
    have "first_pass env (f # before) c = (c0, None)"
      using first_pass_append [of env "[f]" before c] step ih(3) by simp
    with ih show ?thesis
      by (rule_tac x = "f # before" in exI, rule_tac x = g in exI, rule_tac x = post in exI,
          rule_tac x = c0 in exI, rule_tac x = m' in exI, rule_tac x = x in exI) simp
  qed
qed

lemma classify_failure:
  "classify env f c s = (c', s', Some e) \<Longrightarrow>
   s' = s \<and>
   ((\<exists>l x. Name f = ''Chart.lock'' \<and> unmarshal_Lock env (Data f) = (l, Some x)
            \<and> e = CannotLoadChartLock x \<and> c' = set_Lock l c)
    \<or> (\<exists>y. Name f = ''values.yaml'' \<and> LoadValues env (Data f) = Inl y
            \<and> e = CannotLoadValuesYaml y \<and> c' = c))"
  unfolding classify_def Let_def
  by (auto split: if_splits prod.splits option.splits sum.splits)

lemma classify_success_parses:
  "classify env f c s = (c', s', None) \<Longrightarrow>
   (Name f = ''Chart.lock'' \<longrightarrow> snd (unmarshal_Lock env (Data f)) = None)
   \<and> (Name f = ''values.yaml'' \<longrightarrow> (\<exists>v. LoadValues env (Data f) = Inr v))"
  unfolding classify_def Let_def
  by (auto split: if_splits prod.splits option.splits sum.splits)

lemma second_pass_success_parses:
  "second_pass env files c s = (c', s', None) \<Longrightarrow>
   \<forall>g\<in>set files.
      (Name g = ''Chart.lock'' \<longrightarrow> snd (unmarshal_Lock env (Data g)) = None)
      \<and> (Name g = ''values.yaml'' \<longrightarrow> (\<exists>v. LoadValues env (Data g) = Inr v))"
proof (induction files arbitrary: c s)
  case Nil
  then show ?case by simp
next
  case (Cons f files)
  obtain c1 s1 e1 where cl: "classify env f c s = (c1, s1, e1)"
    by (cases "classify env f c s") auto
  with Cons.prems have e1: "e1 = None" by (cases e1) auto
  with Cons.prems cl have "second_pass env files c1 s1 = (c', s', None)" by simp
  from Cons.IH [OF this] classify_success_parses [OF cl [unfolded e1]]
  show ?case by simp
qed

lemma second_pass_failure:
  "second_pass env files c s = (c', s', Some e) \<Longrightarrow>
   \<exists>before f post c1 s1.
      files = before @ f # post \<and> second_pass env before c s = (c1, s1, None)
      \<and> classify env f c1 s1 = (c', s', Some e)"
proof (induction files arbitrary: c s)
  case Nil
  then show ?case by simp
next
  case (Cons f files)
  obtain c1 s1 e1 where cl: "classify env f c s = (c1, s1, e1)"
    by (cases "classify env f c s") auto
  show ?case
  proof (cases e1)
    case (Some x)
    with Cons.prems cl have "classify env f c s = (c', s', Some e)" by simp
    then show ?thesis
      by (rule_tac x = "[]" in exI, rule_tac x = f in exI, rule_tac x = files in exI,
          rule_tac x = c in exI, rule_tac x = s in exI) simp
  next
    case None
    with Cons.prems cl have "second_pass env files c1 s1 = (c', s', Some e)" by simp
    from Cons.IH [OF this] obtain before g post c2 s2 where
      ih: "files = before @ g # post" "second_pass env before c1 s1 = (c2, s2, None)"
          "classify env g c2 s2 = (c', s', Some e)" by blast
    from ih(2) cl None have "second_pass env (f # before) c s = (c2, s2, None)" by simp
    with ih(1,3) show ?thesis
      by (rule_tac x = "f # before" in exI, rule_tac x = g in exI, rule_tac x = post in exI,
          rule_tac x = c2 in exI, rule_tac x = s2 in exI) simp
  qed
qed

lemma load_subcharts_head_failure:
  "load_subcharts env c [g] = (c', Some e) \<Longrightarrow> c' = c"
  by (cases g) (auto split: if_splits list.splits sum.splits prod.splits option.splits)

lemma load_subcharts_failure:
  "load_subcharts env c gs = (c', Some e) \<Longrightarrow>
   \<exists>before g rest. gs = before @ g # rest \<and> load_subcharts env c before = (c', None)
      \<and> load_subcharts env c' [g] = (c', Some e)"
proof (induction gs arbitrary: c)
  case Nil
  then show ?case by simp
next
  case (Cons g gs)
  obtain c1 e1 where h: "load_subcharts env c [g] = (c1, e1)"
    by (cases "load_subcharts env c [g]") auto
  note split = load_subcharts_Cons [of env c g gs]
  show ?case
  proof (cases e1)
    case (Some x)
    with Cons.prems split h have eq: "c' = c1" "e = x" by simp_all
    from load_subcharts_head_failure [OF h [unfolded Some]] have "c1 = c" .
    with eq h Some show ?thesis
      by (rule_tac x = "[]" in exI, rule_tac x = g in exI, rule_tac x = gs in exI) simp
  next
    case None
    with Cons.prems split h have "load_subcharts env c1 gs = (c', Some e)" by simp
    from Cons.IH [OF this] obtain before g' rest where
      ih: "gs = before @ g' # rest" "load_subcharts env c1 before = (c', None)"
          "load_subcharts env c' [g'] = (c', Some e)" by blast
    have "load_subcharts env c (g # before) = (c', None)"
      using load_subcharts_Cons [of env c g before] h None ih(2) by simp
    with ih(1,3) show ?thesis
      by (rule_tac x = "g # before" in exI, rule_tac x = g' in exI, rule_tac x = rest in exI)
         simp
  qed
qed

section \<open>What a failure returns\<close>

text \<open>
  C5, as the code has it. Every \<^verbatim>\<open>return\<close> of \<^verbatim>\<open>LoadFiles\<close> that carries an error
  carries the chart built up to that point with it, after a parse failure as after a
  failed validation, and the failure ends the assembly there.
  \<^item> After the first \<^verbatim>\<open>Chart.yaml\<close> that does not parse, the chart holds the raw files up
    to that entry and what the failed decoding left in the metadata, and nothing else.
  \<^item> After the first \<^verbatim>\<open>Chart.lock\<close> or \<^verbatim>\<open>values.yaml\<close> that does not parse, the chart
    holds every raw file, the metadata of all \<^verbatim>\<open>Chart.yaml\<close> entries and the
    classification of the files before the failing entry (and what the failed decoding
    left in the lock); a \<^verbatim>\<open>values.yaml\<close> that fails assigns no values.
  \<^item> With the missing-metadata error and with a validation error, the chart holds the
    classification of all files, and it is the chart that was validated.
  \<^item> After a subchart that fails, the chart holds the same and the dependencies loaded
    from the groups visited before the failing one.
\<close>

theorem every_failure_returns_the_chart:
  assumes "LoadFiles env files = (c, Some e)"
  shows "(\<forall>x. e = CannotLoadChartYaml x \<longrightarrow>
            (\<exists>before f post m.
               files = before @ f # post \<and> Name f = ''Chart.yaml''
               \<and> snd (first_pass env before new_Chart) = None
               \<and> unmarshal_Metadata env (Data f)
                    (case metadata_of env before of None \<Rightarrow> new_Metadata env | Some m \<Rightarrow> m)
                   = (m, Some x)
               \<and> c = Chart (map (\<lambda>f. File (Name f) (Data f)) (before @ [f])) (Some m)
                        None None [] [] [] []))
       \<and> (\<forall>x. e = CannotLoadChartLock x \<longrightarrow>
            (\<exists>before f post l.
               files = before @ f # post \<and> Name f = ''Chart.lock''
               \<and> (\<forall>g\<in>set before.
                     (Name g = ''Chart.lock'' \<longrightarrow> snd (unmarshal_Lock env (Data g)) = None)
                     \<and> (Name g = ''values.yaml'' \<longrightarrow> (\<exists>v. LoadValues env (Data g) = Inr v)))
               \<and> unmarshal_Lock env (Data f) = (l, Some x)
               \<and> c = set_Lock l
                       (classified env before
                          (Chart (map (\<lambda>f. File (Name f) (Data f)) files)
                             (metadata_of env files) None None [] [] [] []))))
       \<and> (\<forall>y. e = CannotLoadValuesYaml y \<longrightarrow>
            (\<exists>before f post.
               files = before @ f # post \<and> Name f = ''values.yaml''
               \<and> (\<forall>g\<in>set before.
                     (Name g = ''Chart.lock'' \<longrightarrow> snd (unmarshal_Lock env (Data g)) = None)
                     \<and> (Name g = ''values.yaml'' \<longrightarrow> (\<exists>v. LoadValues env (Data g) = Inr v)))
               \<and> LoadValues env (Data f) = Inl y
               \<and> c = classified env before
                       (Chart (map (\<lambda>f. File (Name f) (Data f)) files)
                          (metadata_of env files) None None [] [] [] [])))
       \<and> (e = ChartYamlMissing \<longrightarrow>
            metadata_of env files = None
            \<and> c = classified env files
                    (Chart (map (\<lambda>f. File (Name f) (Data f)) files) None None None [] [] [] []))
       \<and> (\<forall>x. e = Foreign x \<longrightarrow>
            Validate env c = Some x
            \<and> c = classified env files
                    (Chart (map (\<lambda>f. File (Name f) (Data f)) files)
                       (metadata_of env files) None None [] [] [] []))
       \<and> ((\<forall>x. e \<noteq> CannotLoadChartYaml x) \<and> (\<forall>x. e \<noteq> CannotLoadChartLock x)
            \<and> (\<forall>y. e \<noteq> CannotLoadValuesYaml y) \<and> e \<noteq> ChartYamlMissing
            \<and> (\<forall>x. e \<noteq> Foreign x) \<longrightarrow>
            (\<exists>gs g rest.
               sort_key (\<lambda>g. range_rank env (fst g)) (subcharts_of files) = gs @ g # rest
               \<and> load_subcharts env
                    (classified env files
                       (Chart (map (\<lambda>f. File (Name f) (Data f)) files)
                          (metadata_of env files) None None [] [] [] []))
                    gs = (c, None)
               \<and> load_subcharts env c [g] = (c, Some e)))"
  using assms
proof (cases rule: LoadFiles_cases)
  case (first x)
  from first_pass_failure [OF first(1)] obtain before f post c0 m y where
    d: "files = before @ f # post" "Name f = ''Chart.yaml''"
       "first_pass env before new_Chart = (c0, None)"
       "unmarshal_Metadata env (Data f)
            (case Metadata c0 of None \<Rightarrow> new_Metadata env | Some m \<Rightarrow> m) = (m, Some y)"
       "x = CannotLoadChartYaml y"
       "c = set_Metadata (Some m) (set_Raw (Raw c0 @ [File (Name f) (Data f)]) c0)"
    by blast
  note c0 = first_pass_success_chart [OF d(3)]
  have c: "c = Chart (map (\<lambda>f. File (Name f) (Data f)) (before @ [f])) (Some m)
                        None None [] [] [] []"
    unfolding d(6) using c0 by (simp add: set_Metadata_def set_Raw_def)
  have u: "unmarshal_Metadata env (Data f)
                    (case metadata_of env before of None \<Rightarrow> new_Metadata env | Some m \<Rightarrow> m)
                   = (m, Some y)"
    using d(4) c0 by simp
  have "\<exists>before f post m.
               files = before @ f # post \<and> Name f = ''Chart.yaml''
               \<and> snd (first_pass env before new_Chart) = None
               \<and> unmarshal_Metadata env (Data f)
                    (case metadata_of env before of None \<Rightarrow> new_Metadata env | Some m \<Rightarrow> m)
                   = (m, Some y)
               \<and> c = Chart (map (\<lambda>f. File (Name f) (Data f)) (before @ [f])) (Some m)
                        None None [] [] [] []"
    using d(1,2,3) u c
    by (rule_tac x = before in exI, rule_tac x = f in exI, rule_tac x = post in exI,
        rule_tac x = m in exI) simp
  with first(2) d(5) show ?thesis by simp
next
  case (second c0 s x)
  note c0 = first_pass_success_chart [OF second(1)]
  from second_pass_failure [OF second(2)] obtain before f post c1 s1 where
    d: "files = before @ f # post" "second_pass env before c0 [] = (c1, s1, None)"
       "classify env f c1 s1 = (c, s, Some x)" by blast
  note c1 = second_pass_classified [OF d(2)]
  note ps = second_pass_success_parses [OF d(2)]
  from classify_failure [OF d(3)]
  consider (lock) l y where "Name f = ''Chart.lock''" "unmarshal_Lock env (Data f) = (l, Some y)"
      "x = CannotLoadChartLock y" "c = set_Lock l c1"
    | (vals) y where "Name f = ''values.yaml''" "LoadValues env (Data f) = Inl y"
      "x = CannotLoadValuesYaml y" "c = c1"
    by blast
  then show ?thesis
  proof cases
    case lock
    have "\<exists>before f post l.
               files = before @ f # post \<and> Name f = ''Chart.lock''
               \<and> (\<forall>g\<in>set before.
                     (Name g = ''Chart.lock'' \<longrightarrow> snd (unmarshal_Lock env (Data g)) = None)
                     \<and> (Name g = ''values.yaml'' \<longrightarrow> (\<exists>v. LoadValues env (Data g) = Inr v)))
               \<and> unmarshal_Lock env (Data f) = (l, Some y)
               \<and> c = set_Lock l
                       (classified env before
                          (Chart (map (\<lambda>f. File (Name f) (Data f)) files)
                             (metadata_of env files) None None [] [] [] []))"
      using d(1) lock(1,2,4) ps c1 c0
      by (rule_tac x = before in exI, rule_tac x = f in exI, rule_tac x = post in exI,
          rule_tac x = l in exI) simp
    with second(3) lock(3) show ?thesis by simp
  next
    case vals
    have "\<exists>before f post.
               files = before @ f # post \<and> Name f = ''values.yaml''
               \<and> (\<forall>g\<in>set before.
                     (Name g = ''Chart.lock'' \<longrightarrow> snd (unmarshal_Lock env (Data g)) = None)
                     \<and> (Name g = ''values.yaml'' \<longrightarrow> (\<exists>v. LoadValues env (Data g) = Inr v)))
               \<and> LoadValues env (Data f) = Inl y
               \<and> c = classified env before
                       (Chart (map (\<lambda>f. File (Name f) (Data f)) files)
                          (metadata_of env files) None None [] [] [] [])"
      using d(1) vals(1,2,4) ps c1 c0
      by (rule_tac x = before in exI, rule_tac x = f in exI, rule_tac x = post in exI) simp
    with second(3) vals(3) show ?thesis by simp
  qed
next
  case (missing c0 s)
  note c0 = first_pass_success_chart [OF missing(1)]
  note c1 = second_pass_classified [OF missing(2)]
  from second_pass_kept [OF missing(2)] missing(3) have "Metadata c0 = None" by simp
  with c0 have m: "metadata_of env files = None" by simp
  with c1 c0 missing(4) show ?thesis by simp
next
  case (invalid c0 s x)
  note c0 = first_pass_success_chart [OF invalid(1)]
  note c1 = second_pass_classified [OF invalid(2)]
  from c1 c0 invalid(4,5) show ?thesis by simp
next
  case (subcharts c0 c1 s)
  note c0 = first_pass_success_chart [OF subcharts(1)]
  note c1 = second_pass_classified [OF subcharts(2)]
  from second_pass_subcharts [OF subcharts(2)] have s: "s = subcharts_of files"
    by (simp add: subcharts_of_def)
  from load_subcharts_failure [OF subcharts(5)] obtain gs g rest where
    d: "sort_key (\<lambda>g. range_rank env (fst g)) s = gs @ g # rest"
       "load_subcharts env c1 gs = (c, None)" "load_subcharts env c [g] = (c, Some e)"
    by blast
  have "\<exists>gs g rest.
               sort_key (\<lambda>g. range_rank env (fst g)) (subcharts_of files) = gs @ g # rest
               \<and> load_subcharts env
                    (classified env files
                       (Chart (map (\<lambda>f. File (Name f) (Data f)) files)
                          (metadata_of env files) None None [] [] [] []))
                    gs = (c, None)
               \<and> load_subcharts env c [g] = (c, Some e)"
    using d s c1 c0
    by (rule_tac x = gs in exI, rule_tac x = g in exI, rule_tac x = rest in exI) simp
  with load_subcharts_error [OF subcharts(5)] show ?thesis by simp
qed

theorem every_failure_returns_the_chart_witness:
  "LoadFiles sample_env
     [\<lparr>Name = ''Chart.yaml'', Data = ''name: a'' @ nl @ ''version: 0.1.0''\<rparr>,
      \<lparr>Name = ''values.yaml'', Data = ''k: v''\<rparr>,
      \<lparr>Name = ''templates/t.yaml'', Data = ''t''\<rparr>,
      \<lparr>Name = ''values.yaml'', Data = ''w: x'' @ nl @ ''---'' @ nl @ ''- a''\<rparr>,
      \<lparr>Name = ''README.md'', Data = ''r''\<rparr>]
   = (Chart
        [File ''Chart.yaml'' (''name: a'' @ nl @ ''version: 0.1.0''),
         File ''values.yaml'' ''k: v'',
         File ''templates/t.yaml'' ''t'',
         File ''values.yaml'' (''w: x'' @ nl @ ''---'' @ nl @ ''- a''),
         File ''README.md'' ''r'']
        (Some \<lparr>md_name = ''a'', md_version = ''0.1.0'', md_apiVersion = ''v3''\<rparr>)
        None (Some [(''k'', VStr ''v'')]) [] [File ''templates/t.yaml'' ''t''] [] [],
      Some (CannotLoadValuesYaml (CannotUnmarshalYamlDocument
        ''json: cannot unmarshal into Go value of type map[string]interface {}'')))
   \<and> (\<exists>before f post.
         [\<lparr>Name = ''Chart.yaml'', Data = ''name: a'' @ nl @ ''version: 0.1.0''\<rparr>,
          \<lparr>Name = ''values.yaml'', Data = ''k: v''\<rparr>,
          \<lparr>Name = ''templates/t.yaml'', Data = ''t''\<rparr>,
          \<lparr>Name = ''values.yaml'', Data = ''w: x'' @ nl @ ''---'' @ nl @ ''- a''\<rparr>,
          \<lparr>Name = ''README.md'', Data = ''r''\<rparr>] = before @ f # post
         \<and> Name f = ''values.yaml''
         \<and> LoadValues sample_env (Data f)
             = Inl (CannotUnmarshalYamlDocument
                 ''json: cannot unmarshal into Go value of type map[string]interface {}'')
         \<and> classified sample_env before
               (Chart
                  [File ''Chart.yaml'' (''name: a'' @ nl @ ''version: 0.1.0''),
                   File ''values.yaml'' ''k: v'',
                   File ''templates/t.yaml'' ''t'',
                   File ''values.yaml'' (''w: x'' @ nl @ ''---'' @ nl @ ''- a''),
                   File ''README.md'' ''r'']
                  (Some \<lparr>md_name = ''a'', md_version = ''0.1.0'', md_apiVersion = ''v3''\<rparr>)
                  None None [] [] [] [])
             = Chart
                [File ''Chart.yaml'' (''name: a'' @ nl @ ''version: 0.1.0''),
                 File ''values.yaml'' ''k: v'',
                 File ''templates/t.yaml'' ''t'',
                 File ''values.yaml'' (''w: x'' @ nl @ ''---'' @ nl @ ''- a''),
                 File ''README.md'' ''r'']
                (Some \<lparr>md_name = ''a'', md_version = ''0.1.0'', md_apiVersion = ''v3''\<rparr>)
                None (Some [(''k'', VStr ''v'')]) [] [File ''templates/t.yaml'' ''t''] [] [])
   \<and> LoadFiles sample_env [\<lparr>Name = ''Chart.yaml'', Data = ''version: 0.1.0''\<rparr>,
                            \<lparr>Name = ''README.md'', Data = ''r''\<rparr>]
     = (Chart [File ''Chart.yaml'' ''version: 0.1.0'', File ''README.md'' ''r'']
          (Some \<lparr>md_name = [], md_version = ''0.1.0'', md_apiVersion = ''v3''\<rparr>)
          None None [] [] [File ''README.md'' ''r''] [],
        Some (Foreign ''chart.metadata.name is required''))
   \<and> Validate sample_env
        (Chart [File ''Chart.yaml'' ''version: 0.1.0'', File ''README.md'' ''r'']
          (Some \<lparr>md_name = [], md_version = ''0.1.0'', md_apiVersion = ''v3''\<rparr>)
          None None [] [] [File ''README.md'' ''r''] [])
     = Some ''chart.metadata.name is required''
   \<and> classified sample_env
        [\<lparr>Name = ''Chart.yaml'', Data = ''version: 0.1.0''\<rparr>, \<lparr>Name = ''README.md'', Data = ''r''\<rparr>]
        (Chart [File ''Chart.yaml'' ''version: 0.1.0'', File ''README.md'' ''r'']
           (metadata_of sample_env
              [\<lparr>Name = ''Chart.yaml'', Data = ''version: 0.1.0''\<rparr>,
               \<lparr>Name = ''README.md'', Data = ''r''\<rparr>])
           None None [] [] [] [])
     = Chart [File ''Chart.yaml'' ''version: 0.1.0'', File ''README.md'' ''r'']
          (Some \<lparr>md_name = [], md_version = ''0.1.0'', md_apiVersion = ''v3''\<rparr>)
          None None [] [] [File ''README.md'' ''r''] []
   \<and> LoadFiles sample_env
        [\<lparr>Name = ''README.md'', Data = ''r''\<rparr>,
         \<lparr>Name = ''Chart.yaml'', Data = ''{''\<rparr>,
         \<lparr>Name = ''templates/t.yaml'', Data = ''t''\<rparr>]
     = (Chart [File ''README.md'' ''r'', File ''Chart.yaml'' ''{'']
          (Some \<lparr>md_name = [], md_version = [], md_apiVersion = []\<rparr>)
          None None [] [] [] [],
        Some (CannotLoadChartYaml ''yaml: could not find expected key''))
   \<and> LoadFiles sample_env
        [\<lparr>Name = ''Chart.yaml'', Data = ''name: a'' @ nl @ ''version: 0.1.0''\<rparr>,
         \<lparr>Name = ''charts/s/Chart.yaml'', Data = ''name: s'' @ nl @ ''version: 0.2.0''\<rparr>,
         \<lparr>Name = ''charts/t/Chart.yaml'', Data = ''{''\<rparr>,
         \<lparr>Name = ''charts/u/Chart.yaml'', Data = ''name: u'' @ nl @ ''version: 0.3.0''\<rparr>]
     = (Chart
          [File ''Chart.yaml'' (''name: a'' @ nl @ ''version: 0.1.0''),
           File ''charts/s/Chart.yaml'' (''name: s'' @ nl @ ''version: 0.2.0''),
           File ''charts/t/Chart.yaml'' ''{'',
           File ''charts/u/Chart.yaml'' (''name: u'' @ nl @ ''version: 0.3.0'')]
          (Some \<lparr>md_name = ''a'', md_version = ''0.1.0'', md_apiVersion = ''v3''\<rparr>)
          None None [] [] []
          [Chart [File ''Chart.yaml'' (''name: s'' @ nl @ ''version: 0.2.0'')]
             (Some \<lparr>md_name = ''s'', md_version = ''0.2.0'', md_apiVersion = ''v3''\<rparr>)
             None None [] [] [] []],
        Some (ErrorUnpackingSubchart ''t'' ''a''
                (CannotLoadChartYaml ''yaml: could not find expected key'')))"
proof -
  let ?files1 = "[\<lparr>Name = ''Chart.yaml'', Data = ''name: a'' @ nl @ ''version: 0.1.0''\<rparr>,
      \<lparr>Name = ''values.yaml'', Data = ''k: v''\<rparr>,
      \<lparr>Name = ''templates/t.yaml'', Data = ''t''\<rparr>,
      \<lparr>Name = ''values.yaml'', Data = ''w: x'' @ nl @ ''---'' @ nl @ ''- a''\<rparr>,
      \<lparr>Name = ''README.md'', Data = ''r''\<rparr>]"
  let ?c1 = "Chart
        [File ''Chart.yaml'' (''name: a'' @ nl @ ''version: 0.1.0''),
         File ''values.yaml'' ''k: v'',
         File ''templates/t.yaml'' ''t'',
         File ''values.yaml'' (''w: x'' @ nl @ ''---'' @ nl @ ''- a''),
         File ''README.md'' ''r'']
        (Some \<lparr>md_name = ''a'', md_version = ''0.1.0'', md_apiVersion = ''v3''\<rparr>)
        None (Some [(''k'', VStr ''v'')]) [] [File ''templates/t.yaml'' ''t''] [] []"
  let ?e1 = "CannotUnmarshalYamlDocument
        ''json: cannot unmarshal into Go value of type map[string]interface {}''"
  have run1: "LoadFiles sample_env ?files1 = (?c1, Some (CannotLoadValuesYaml ?e1))"
    by code_simp
  have md1: "metadata_of sample_env ?files1
               = Some \<lparr>md_name = ''a'', md_version = ''0.1.0'', md_apiVersion = ''v3''\<rparr>"
    by code_simp
  let ?files2 = "[\<lparr>Name = ''Chart.yaml'', Data = ''version: 0.1.0''\<rparr>,
                  \<lparr>Name = ''README.md'', Data = ''r''\<rparr>]"
  let ?c2 = "Chart [File ''Chart.yaml'' ''version: 0.1.0'', File ''README.md'' ''r'']
          (Some \<lparr>md_name = [], md_version = ''0.1.0'', md_apiVersion = ''v3''\<rparr>)
          None None [] [] [File ''README.md'' ''r''] []"
  have run2: "LoadFiles sample_env ?files2
                = (?c2, Some (Foreign ''chart.metadata.name is required''))"
    by code_simp
  have run3: "LoadFiles sample_env
        [\<lparr>Name = ''README.md'', Data = ''r''\<rparr>,
         \<lparr>Name = ''Chart.yaml'', Data = ''{''\<rparr>,
         \<lparr>Name = ''templates/t.yaml'', Data = ''t''\<rparr>]
     = (Chart [File ''README.md'' ''r'', File ''Chart.yaml'' ''{'']
          (Some \<lparr>md_name = [], md_version = [], md_apiVersion = []\<rparr>)
          None None [] [] [] [],
        Some (CannotLoadChartYaml ''yaml: could not find expected key''))"
    by code_simp
  have run4: "LoadFiles sample_env
        [\<lparr>Name = ''Chart.yaml'', Data = ''name: a'' @ nl @ ''version: 0.1.0''\<rparr>,
         \<lparr>Name = ''charts/s/Chart.yaml'', Data = ''name: s'' @ nl @ ''version: 0.2.0''\<rparr>,
         \<lparr>Name = ''charts/t/Chart.yaml'', Data = ''{''\<rparr>,
         \<lparr>Name = ''charts/u/Chart.yaml'', Data = ''name: u'' @ nl @ ''version: 0.3.0''\<rparr>]
     = (Chart
          [File ''Chart.yaml'' (''name: a'' @ nl @ ''version: 0.1.0''),
           File ''charts/s/Chart.yaml'' (''name: s'' @ nl @ ''version: 0.2.0''),
           File ''charts/t/Chart.yaml'' ''{'',
           File ''charts/u/Chart.yaml'' (''name: u'' @ nl @ ''version: 0.3.0'')]
          (Some \<lparr>md_name = ''a'', md_version = ''0.1.0'', md_apiVersion = ''v3''\<rparr>)
          None None [] [] []
          [Chart [File ''Chart.yaml'' (''name: s'' @ nl @ ''version: 0.2.0'')]
             (Some \<lparr>md_name = ''s'', md_version = ''0.2.0'', md_apiVersion = ''v3''\<rparr>)
             None None [] [] [] []],
        Some (ErrorUnpackingSubchart ''t'' ''a''
                (CannotLoadChartYaml ''yaml: could not find expected key'')))"
    by code_simp
  note t1 = every_failure_returns_the_chart [OF run1, THEN conjunct2, THEN conjunct2,
              THEN conjunct1, rule_format, OF refl]
  from t1 obtain before f post where
    d: "?files1 = before @ f # post" "Name f = ''values.yaml''"
       "LoadValues sample_env (Data f) = Inl ?e1"
       "?c1 = classified sample_env before
                (Chart (map (\<lambda>f. File (Name f) (Data f)) ?files1)
                   (metadata_of sample_env ?files1) None None [] [] [] [])"
    by blast
  have part1: "\<exists>before f post.
         ?files1 = before @ f # post
         \<and> Name f = ''values.yaml''
         \<and> LoadValues sample_env (Data f) = Inl ?e1
         \<and> classified sample_env before
               (Chart
                  [File ''Chart.yaml'' (''name: a'' @ nl @ ''version: 0.1.0''),
                   File ''values.yaml'' ''k: v'',
                   File ''templates/t.yaml'' ''t'',
                   File ''values.yaml'' (''w: x'' @ nl @ ''---'' @ nl @ ''- a''),
                   File ''README.md'' ''r'']
                  (Some \<lparr>md_name = ''a'', md_version = ''0.1.0'', md_apiVersion = ''v3''\<rparr>)
                  None None [] [] [] [])
             = ?c1"
  proof -
    have maps: "map (\<lambda>f. File (Name f) (Data f)) ?files1
       = [File ''Chart.yaml'' (''name: a'' @ nl @ ''version: 0.1.0''),
          File ''values.yaml'' ''k: v'',
          File ''templates/t.yaml'' ''t'',
          File ''values.yaml'' (''w: x'' @ nl @ ''---'' @ nl @ ''- a''),
          File ''README.md'' ''r'']"
      by simp
    note eq = d(4) [unfolded maps md1, symmetric]
    from d(1,2,3) eq show ?thesis by blast
  qed
  note t2 = every_failure_returns_the_chart [OF run2, THEN conjunct2, THEN conjunct2,
              THEN conjunct2, THEN conjunct2, THEN conjunct1, rule_format, OF refl]
  have maps2: "map (\<lambda>f. File (Name f) (Data f)) ?files2
                 = [File ''Chart.yaml'' ''version: 0.1.0'', File ''README.md'' ''r'']"
    by simp
  note part2 = t2 [THEN conjunct1]
  note part3 = t2 [THEN conjunct2, unfolded maps2, symmetric]
  from run1 part1 run2 part2 part3 run3 run4 show ?thesis by (intro conjI)
qed

text \<open>
  C5 as the specification states it fails: a \<^verbatim>\<open>Chart.lock\<close> that does not parse returns,
  with its error, the chart built so far, with its raw files, its metadata and the
  template classified before the lock.
\<close>

theorem parse_failure_returns_chart_counterexample:
  "LoadFiles sample_env
     [\<lparr>Name = ''Chart.yaml'', Data = ''name: a'' @ nl @ ''version: 0.1.0''\<rparr>,
      \<lparr>Name = ''templates/t.yaml'', Data = ''t''\<rparr>,
      \<lparr>Name = ''Chart.lock'', Data = ''{''\<rparr>,
      \<lparr>Name = ''README.md'', Data = ''r''\<rparr>]
   = (Chart
        [File ''Chart.yaml'' (''name: a'' @ nl @ ''version: 0.1.0''),
         File ''templates/t.yaml'' ''t'',
         File ''Chart.lock'' ''{'',
         File ''README.md'' ''r'']
        (Some \<lparr>md_name = ''a'', md_version = ''0.1.0'', md_apiVersion = ''v3''\<rparr>)
        (Some []) None [] [File ''templates/t.yaml'' ''t''] [] [],
      Some (CannotLoadChartLock ''yaml: could not find expected key''))
   \<and> fst (LoadFiles sample_env
     [\<lparr>Name = ''Chart.yaml'', Data = ''name: a'' @ nl @ ''version: 0.1.0''\<rparr>,
      \<lparr>Name = ''templates/t.yaml'', Data = ''t''\<rparr>,
      \<lparr>Name = ''Chart.lock'', Data = ''{''\<rparr>,
      \<lparr>Name = ''README.md'', Data = ''r''\<rparr>]) \<noteq> new_Chart"
  by code_simp

section \<open>Archives and files under \<^verbatim>\<open>charts/\<close>\<close>

lemma load_subcharts_mismatch:
  "Ext n = ''.tgz'' \<Longrightarrow> IndexAny n ''_.'' \<noteq> 0 \<Longrightarrow> Name file \<noteq> n \<Longrightarrow>
   load_subcharts env c ((n, file # others) # rest)
     = (c, Some (SubchartTarMismatch (ChartName env c) n (Name file)))"
  by simp

lemma load_subcharts_fails:
  assumes "(n, file # others) \<in> set gs" "Ext n = ''.tgz''" "IndexAny n ''_.'' \<noteq> 0"
    "Name file \<noteq> n"
  shows "snd (load_subcharts env c gs) \<noteq> None"
proof -
  from assms(1) obtain before rest where gs: "gs = before @ (n, file # others) # rest"
    by (meson split_list)
  obtain c1 e1 where b: "load_subcharts env c before = (c1, e1)"
    by (cases "load_subcharts env c before") auto
  show ?thesis
  proof (cases e1)
    case None
    have "load_subcharts env c gs = load_subcharts env c1 ((n, file # others) # rest)"
      unfolding gs load_subcharts_append b None by simp
    also note load_subcharts_mismatch [OF assms(2,3,4)]
    finally show ?thesis by simp
  next
    case (Some x)
    have "load_subcharts env c gs = (c1, Some x)"
      unfolding gs load_subcharts_append b Some by simp
    then show ?thesis by simp
  qed
qed

text \<open>
  C9, as the code has it. The loop over the groups skips a key that begins with \<^verbatim>\<open>_\<close>
  or \<^verbatim>\<open>.\<close> before it looks at its extension. For every other key with the extension
  \<^verbatim>\<open>.tgz\<close> the name of the first buffered member must be the key: where it is not, the
  loop stops at that group with the error that names the chart, the key and the name of
  the member, and an input with such a group always fails. When the groups visited
  before it have loaded, the error of \<^verbatim>\<open>LoadFiles\<close> is that error.
\<close>

theorem tgz_member_name_must_be_key:
  assumes "Ext n = ''.tgz''" and "IndexAny n ''_.'' \<noteq> 0" and "Name file \<noteq> n"
  shows "load_subcharts env c ((n, file # others) # rest)
           = (c, Some (SubchartTarMismatch (ChartName env c) n (Name file)))
       \<and> (\<forall>files. members n files = file # others \<longrightarrow> snd (LoadFiles env files) \<noteq> None)
       \<and> (\<forall>files c0 c1 s gs c2.
             first_pass env files new_Chart = (c0, None)
             \<and> second_pass env files c0 [] = (c1, s, None)
             \<and> Metadata c1 \<noteq> None \<and> Validate env c1 = None
             \<and> sort_key (\<lambda>g. range_rank env (fst g)) s = gs @ (n, file # others) # rest
             \<and> load_subcharts env c1 gs = (c2, None)
            \<longrightarrow> LoadFiles env files
                  = (c2, Some (SubchartTarMismatch (ChartName env c2) n (Name file))))"
proof -
  note mm = load_subcharts_mismatch [OF assms]
  have fails: "snd (LoadFiles env files) \<noteq> None" if m: "members n files = file # others" for files
  proof -
    obtain c' r where r: "LoadFiles env files = (c', r)" by (cases "LoadFiles env files") auto
    from r have "r \<noteq> None"
    proof (cases rule: LoadFiles_cases)
      case (subcharts c0 c1 s)
      from second_pass_map_of [OF subcharts(2), of n] m
      have "map_of s n = Some (file # others)" by simp
      then have "(n, file # others) \<in> set s" by (rule map_of_SomeD)
      then have "(n, file # others) \<in> set (sort_key (\<lambda>g. range_rank env (fst g)) s)" by simp
      from load_subcharts_fails [OF this assms, of env c1] subcharts(5) show ?thesis by simp
    qed simp_all
    with r show ?thesis by simp
  qed
  have reached: "LoadFiles env files
                  = (c2, Some (SubchartTarMismatch (ChartName env c2) n (Name file)))"
    if "first_pass env files new_Chart = (c0, None)"
       "second_pass env files c0 [] = (c1, s, None)"
       "Metadata c1 \<noteq> None" "Validate env c1 = None"
       "sort_key (\<lambda>g. range_rank env (fst g)) s = gs @ (n, file # others) # rest"
       "load_subcharts env c1 gs = (c2, None)" for files c0 c1 s gs c2
  proof -
    have "LoadFiles env files = load_subcharts env c2 ((n, file # others) # rest)"
      using that
      by (subst LoadFiles.simps)
         (auto simp add: load_subcharts_append simp del: load_subcharts.simps)
    also note mm
    finally show ?thesis .
  qed
  from mm fails reached show ?thesis by blast
qed

theorem tgz_member_name_must_be_key_witness:
  "Ext ''foo.tgz'' = ''.tgz''
   \<and> members ''foo.tgz''
        [\<lparr>Name = ''Chart.yaml'', Data = ''name: a'' @ nl @ ''version: 0.1.0''\<rparr>,
         \<lparr>Name = ''charts/foo.tgz/extra'', Data = ''x''\<rparr>]
       = [\<lparr>Name = ''foo.tgz/extra'', Data = ''x''\<rparr>]
   \<and> load_subcharts sample_env new_Chart [(''foo.tgz'', [\<lparr>Name = ''foo.tgz/extra'', Data = ''x''\<rparr>])]
       = (new_Chart, Some (SubchartTarMismatch [] ''foo.tgz'' ''foo.tgz/extra''))
   \<and> LoadFiles sample_env
        [\<lparr>Name = ''Chart.yaml'', Data = ''name: a'' @ nl @ ''version: 0.1.0''\<rparr>,
         \<lparr>Name = ''charts/foo.tgz/extra'', Data = ''x''\<rparr>]
       = (Chart [File ''Chart.yaml'' (''name: a'' @ nl @ ''version: 0.1.0''),
                 File ''charts/foo.tgz/extra'' ''x'']
            (Some \<lparr>md_name = ''a'', md_version = ''0.1.0'', md_apiVersion = ''v3''\<rparr>)
            None None [] [] [] [],
          Some (SubchartTarMismatch ''a'' ''foo.tgz'' ''foo.tgz/extra''))"
proof -
  let ?files = "[\<lparr>Name = ''Chart.yaml'', Data = ''name: a'' @ nl @ ''version: 0.1.0''\<rparr>,
         \<lparr>Name = ''charts/foo.tgz/extra'', Data = ''x''\<rparr>]"
  let ?file = "\<lparr>Name = ''foo.tgz/extra'', Data = ''x''\<rparr>"
  have e: "Ext ''foo.tgz'' = ''.tgz''" by code_simp
  have i: "IndexAny ''foo.tgz'' ''_.'' \<noteq> 0" by code_simp
  have d: "Name ?file \<noteq> ''foo.tgz''" by simp
  have m: "members ''foo.tgz'' ?files = [?file]" by code_simp
  have n: "ChartName sample_env new_Chart = []" by code_simp
  have run: "LoadFiles sample_env ?files
       = (Chart [File ''Chart.yaml'' (''name: a'' @ nl @ ''version: 0.1.0''),
                 File ''charts/foo.tgz/extra'' ''x'']
            (Some \<lparr>md_name = ''a'', md_version = ''0.1.0'', md_apiVersion = ''v3''\<rparr>)
            None None [] [] [] [],
          Some (SubchartTarMismatch ''a'' ''foo.tgz'' ''foo.tgz/extra''))"
    by code_simp
  note t = tgz_member_name_must_be_key [OF e i d, of sample_env new_Chart "[]" "[]"]
  from t n have "load_subcharts sample_env new_Chart [(''foo.tgz'', [?file])]
       = (new_Chart, Some (SubchartTarMismatch [] ''foo.tgz'' ''foo.tgz/extra''))"
    by simp
  with e m run show ?thesis by simp
qed

text \<open>
  C9 as the specification states it fails for a key that begins with \<^verbatim>\<open>_\<close> or \<^verbatim>\<open>.\<close>:
  the entry \<^verbatim>\<open>charts/_a.tgz/extra\<close> makes the group \<^verbatim>\<open>_a.tgz\<close>, whose extension is
  \<^verbatim>\<open>.tgz\<close> and whose only member is not named as the key, and loading succeeds.
\<close>

theorem skipped_tgz_key_counterexample:
  "Ext ''_a.tgz'' = ''.tgz''
   \<and> members ''_a.tgz''
        [\<lparr>Name = ''Chart.yaml'', Data = ''name: a'' @ nl @ ''version: 0.1.0''\<rparr>,
         \<lparr>Name = ''charts/_a.tgz/extra'', Data = ''x''\<rparr>]
       = [\<lparr>Name = ''_a.tgz/extra'', Data = ''x''\<rparr>]
   \<and> LoadFiles sample_env
        [\<lparr>Name = ''Chart.yaml'', Data = ''name: a'' @ nl @ ''version: 0.1.0''\<rparr>,
         \<lparr>Name = ''charts/_a.tgz/extra'', Data = ''x''\<rparr>]
       = (Chart [File ''Chart.yaml'' (''name: a'' @ nl @ ''version: 0.1.0''),
                 File ''charts/_a.tgz/extra'' ''x'']
            (Some \<lparr>md_name = ''a'', md_version = ''0.1.0'', md_apiVersion = ''v3''\<rparr>)
            None None [] [] [] [],
          None)"
  by code_simp

text \<open>
  C2. The specification says that a file directly under \<^verbatim>\<open>charts/\<close> is dropped and is
  no error, and the comment in the source says the same. The code drops the file from
  the buffer of its group, and then loads the group from the buffer that is left: for a
  file alone in its group the buffer is empty, the load of the subchart finds no
  \<^verbatim>\<open>Chart.yaml\<close>, and \<^verbatim>\<open>LoadFiles\<close> fails.
\<close>

theorem file_under_charts_fails:
  "trim_members [\<lparr>Name = ''README'', Data = ''x''\<rparr>] = []
   \<and> LoadFiles sample_env
        [\<lparr>Name = ''Chart.yaml'', Data = ''name: a'' @ nl @ ''version: 0.1.0''\<rparr>,
         \<lparr>Name = ''charts/README'', Data = ''x''\<rparr>]
       = (Chart [File ''Chart.yaml'' (''name: a'' @ nl @ ''version: 0.1.0''),
                 File ''charts/README'' ''x'']
            (Some \<lparr>md_name = ''a'', md_version = ''0.1.0'', md_apiVersion = ''v3''\<rparr>)
            None None [] [] [] [],
          Some (ErrorUnpackingSubchart ''README'' ''a'' ChartYamlMissing))"
  by code_simp

end
